theory Spec2Isabelle
  imports Complex_Main
begin

section \<open>Values read from the result files\<close>

text \<open>
  The script \<open>plot.py\<close> reads attributes of HDF5 groups as numpy doubles and tests them
  with \<open>np.isinf\<close> and \<open>np.isnan\<close>. A double is modelled as a finite real or one of the
  three special values; rounding is not modelled (a finite double is the real it denotes).
\<close>

datatype fl = Finite real | PInf | NInf | NaN

text \<open>\<open>np.isinf\<close> and \<open>np.isnan\<close>.\<close>

definition isinf :: "fl \<Rightarrow> bool" where
  "isinf v = (v = PInf \<or> v = NInf)"

definition isnan :: "fl \<Rightarrow> bool" where
  "isnan v = (v = NaN)"

text \<open>The comparison \<open>temp > c\<close> with a finite constant: false on NaN.\<close>

fun fl_gt :: "fl \<Rightarrow> real \<Rightarrow> bool" where
  "fl_gt (Finite r) c = (c < r)"
| "fl_gt PInf c = True"
| "fl_gt NInf c = False"
| "fl_gt NaN c = False"

text \<open>\<open>np.sqrt\<close>: NaN below zero.\<close>

fun fl_sqrt :: "fl \<Rightarrow> fl" where
  "fl_sqrt (Finite r) = (if r < 0 then NaN else Finite (sqrt r))"
| "fl_sqrt PInf = PInf"
| "fl_sqrt NInf = NaN"
| "fl_sqrt NaN = NaN"

text \<open>Addition of doubles, as in \<open>int_auto_correlation_time[i] + int_auto_correlation_time_bias[i]\<close>.\<close>

fun fl_add :: "fl \<Rightarrow> fl \<Rightarrow> fl" where
  "fl_add (Finite a) (Finite b) = Finite (a + b)"
| "fl_add NaN v = NaN"
| "fl_add v NaN = NaN"
| "fl_add PInf NInf = NaN"
| "fl_add NInf PInf = NaN"
| "fl_add PInf v = PInf"
| "fl_add v PInf = PInf"
| "fl_add NInf v = NInf"
| "fl_add v NInf = NInf"

text \<open>
  The attributes of one HDF5 group are a dictionary from names to values; \<open>attrs[key]\<close>
  raises \<open>KeyError\<close> on a missing name. \<open>measurements_group.get(name)\<close> is \<open>None\<close> for a
  missing observable, and reading \<open>.attrs\<close> of it raises \<open>AttributeError\<close>. \<open>len(None)\<close>
  and \<open>name in None\<close> raise \<open>TypeError\<close>, an index past the end of a list raises
  \<open>IndexError\<close>. An exception raised inside a library call is \<open>OtherError\<close> with the
  name of its class.
\<close>

type_synonym attrs = "string \<rightharpoonup> fl"

datatype py_error = KeyError string | AttributeError | TypeError | IndexError | OtherError string

definition getitem :: "attrs \<Rightarrow> string \<Rightarrow> py_error + fl" where
  "getitem a key = (case a key of None \<Rightarrow> Inl (KeyError key) | Some v \<Rightarrow> Inr v)"

section \<open>Observable extraction: \<open>append_observable\<close>\<close>

text \<open>
  \<open>append_observable(name, measurements_group_, observable_list, observable_error_list)\<close>
  appends one value and one error to the two lists it is given. The lists are passed in
  and returned; an exception is the left summand.
\<close>

text \<open>Lines 55 to 59: the mean is read from the checkpoint \<open>_10000_100000\<close> when the
  group has it, from the plain attribute otherwise.\<close>

definition read_bootstrap_mean :: "attrs \<Rightarrow> py_error + fl" where
  "read_bootstrap_mean observable_group =
    (if ''bootstrap_mean_10000_100000'' \<in> dom observable_group
     then getitem observable_group ''bootstrap_mean_10000_100000''
     else getitem observable_group ''bootstrap_mean'')"

text \<open>Lines 60 to 63: the value appended to \<open>observable_list\<close>.\<close>

definition sanitized_value :: "fl \<Rightarrow> fl" where
  "sanitized_value temp = (if isinf temp \<or> fl_gt temp (10 ^ 200) then Finite (- 42) else temp)"

text \<open>Lines 65 to 69: the variance, read the same way.\<close>

definition read_bootstrap_variance :: "attrs \<Rightarrow> py_error + fl" where
  "read_bootstrap_variance observable_group =
    (if ''bootstrap_variance_10000_100000'' \<in> dom observable_group
     then getitem observable_group ''bootstrap_variance_10000_100000''
     else getitem observable_group ''bootstrap_variance'')"

text \<open>Lines 70 to 73: the error appended to \<open>observable_error_list\<close>.\<close>

definition sanitized_error :: "fl \<Rightarrow> fl" where
  "sanitized_error temp =
    (if isinf temp \<or> fl_gt temp (10 ^ 200) \<or> isnan temp then Finite 42 else fl_sqrt temp)"

definition append_observable ::
  "string \<Rightarrow> (string \<rightharpoonup> attrs) \<Rightarrow> fl list \<Rightarrow> fl list \<Rightarrow> py_error + (fl list \<times> fl list)" where
  "append_observable name measurements_group observable_list observable_error_list =
    (case measurements_group name of
       None \<Rightarrow> Inl AttributeError
     | Some observable_group \<Rightarrow>
        (case read_bootstrap_mean observable_group of
           Inl e \<Rightarrow> Inl e
         | Inr temp \<Rightarrow>
            (case read_bootstrap_variance observable_group of
               Inl e \<Rightarrow> Inl e
             | Inr temp2 \<Rightarrow>
                Inr (observable_list @ [sanitized_value temp],
                     observable_error_list @ [sanitized_error temp2]))))"

section \<open>Run records: the file loop of \<open>info_plot\<close>\<close>

text \<open>
  What \<open>info_plot\<close> reads of one result file. The file has a name, may have a group
  \<open>level0\<close> and may have a group \<open>level1\<close>, of which only the attributes are read. Group
  \<open>level0\<close> has attributes, may have a member \<open>h\<close>, of which only the length is read, and
  may have a group \<open>measurements\<close>, which maps the names of observables to their groups.
  The group of an observable has attributes and datasets. Every member and every
  attribute may be missing: \<open>group.get(name)\<close> is then \<open>None\<close> and \<open>attrs[name]\<close> raises.
\<close>

record observable_group =
  og_attrs :: attrs
  og_datasets :: "string \<rightharpoonup> fl list"

record level0_group =
  l0_attrs :: attrs
  l0_h :: "nat option"
  l0_measurements :: "(string \<rightharpoonup> observable_group) option"

record h5file =
  file_name :: string
  level0 :: "level0_group option"
  level1 :: "attrs option"

text \<open>
  \<open>info_plot\<close> keeps one list per quantity and appends to all of them for each file, so
  index \<open>i\<close> of every list belongs to the same run. One run is a record of the entries
  at one index. The entries are the attribute values as read; \<open>system_size\<close> is a length.
\<close>

record run =
  int_auto_correlation_time :: fl
  int_auto_correlation_time_bias :: fl
  int_auto_correlation_time_stat_error :: fl
  gamma :: fl
  system_size :: nat
  tick_time :: fl
  interpolation_type :: fl
  nu_pre_level0 :: fl
  nu_post_level0 :: fl
  nu_pre_level1 :: fl
  nu_post_level1 :: fl

text \<open>Sequencing of steps that may raise: the first exception ends the computation.\<close>

definition bind_result :: "py_error + 'a \<Rightarrow> ('a \<Rightarrow> py_error + 'b) \<Rightarrow> py_error + 'b" where
  "bind_result m k = (case m of Inl e \<Rightarrow> Inl e | Inr x \<Rightarrow> k x)"

text \<open>Python's \<open>str\<close> of a non-negative integer, for the f-string \<open>f"_{i}_{100000}"\<close>.\<close>

fun str_nat :: "nat \<Rightarrow> string" where
  "str_nat n =
    (if n < 10 then [''0123456789'' ! n]
     else str_nat (n div 10) @ [''0123456789'' ! (n mod 10)])"

definition sufix :: "nat \<Rightarrow> string" where
  "sufix i = ''_'' @ str_nat i @ ''_'' @ str_nat 100000"

text \<open>Python's \<open>range(start, stop, step)\<close> on non-negative integers with a positive step.\<close>

function py_range :: "nat \<Rightarrow> nat \<Rightarrow> nat \<Rightarrow> nat list" where
  "py_range start stop step =
    (if start < stop \<and> 0 < step then start # py_range (start + step) stop step else [])"
  by pat_completeness auto
termination
  by (relation "measure (\<lambda>(start, stop, step). stop - start)") auto

text \<open>\<open>range(1000, 100001, 1000)\<close>.\<close>

definition checkpoint_range :: "nat list" where
  "checkpoint_range = py_range 1000 100001 1000"

text \<open>
  The loop over the checkpoints (lines 246 to 254). Its state is
  \<open>temp_int_auto_correlation_time\<close>, \<open>temp_int_auto_correlation_time_stat_error\<close>, \<open>temp_x\<close>
  and \<open>last_sufix\<close>.
\<close>

fun checkpoint_loop ::
  "attrs \<Rightarrow> nat list \<Rightarrow> fl list \<times> fl list \<times> int list \<times> string
     \<Rightarrow> py_error + (fl list \<times> fl list \<times> int list \<times> string)" where
  "checkpoint_loop observable_attrs [] st = Inr st"
| "checkpoint_loop observable_attrs (i # rest) (temp_t, temp_e, temp_x, last_sufix) =
    (if (''int_auto_correlation_time'' @ sufix i) \<in> dom observable_attrs then
       bind_result (getitem observable_attrs (''int_auto_correlation_time'' @ sufix i)) (\<lambda>t.
       bind_result (getitem observable_attrs
                      (''int_auto_correlation_time_stat_error'' @ sufix i)) (\<lambda>s.
         checkpoint_loop observable_attrs rest
           (temp_t @ [t], temp_e @ [s], temp_x @ [100000 - int i],
            (if length last_sufix = 0 then sufix i else last_sufix))))
     else checkpoint_loop observable_attrs rest (temp_t, temp_e, temp_x, last_sufix))"

text \<open>
  Python's \<open>s.split(sep)\<close> for a separator of one character, the index \<open>[1]\<close> of a list, and
  the title of line 259, \<open>"Grid side length =" + file.split('/')[1].split('_')[1][2:]\<close>.
\<close>

fun split_sep :: "char \<Rightarrow> string \<Rightarrow> string list" where
  "split_sep c [] = [[]]"
| "split_sep c (x # xs) =
    (if x = c then [] # split_sep c xs
     else (case split_sep c xs of [] \<Rightarrow> [[x]] | p # ps \<Rightarrow> (x # p) # ps))"

definition item1 :: "'a list \<Rightarrow> py_error + 'a" where
  "item1 xs = (if 1 < length xs then Inr (xs ! 1) else Inl IndexError)"

definition title_of :: "string \<Rightarrow> py_error + string" where
  "title_of file =
    bind_result (item1 (split_sep CHR ''/'' file)) (\<lambda>a.
    bind_result (item1 (split_sep CHR ''_'' a)) (\<lambda>b.
      Inr (''Grid side length ='' @ drop 2 b)))"

text \<open>
  \<open>make_auto_correlation_plot_to_ax(name, measurements_group_, ax_, suffix, label)\<close> reads
  the dataset \<open>"auto_correlation" + suffix\<close> of the observable and plots it under the
  label; \<open>.size\<close> of a missing dataset raises \<open>AttributeError\<close>. The result is the curve
  handed to the plot and its label.
\<close>

definition make_auto_correlation_plot_to_ax ::
  "string \<Rightarrow> (string \<rightharpoonup> observable_group) \<Rightarrow> string \<Rightarrow> string
     \<Rightarrow> py_error + (fl list \<times> string)" where
  "make_auto_correlation_plot_to_ax name measurements_group suffix label =
    (case measurements_group name of
       None \<Rightarrow> Inl AttributeError
     | Some observable_group \<Rightarrow>
        (case og_datasets observable_group (''auto_correlation'' @ suffix) of
           None \<Rightarrow> Inl AttributeError
         | Some observable_auto_correlation \<Rightarrow> Inr (observable_auto_correlation, label)))"

text \<open>
  What the body of the file loop yields for one file: the entries appended to the
  lists, the label, the title of the run's own figure, and the curve added to the
  common autocorrelation figure when the grid has \<open>32 * 32\<close> sites.
\<close>

record file_result =
  fr_run :: run
  fr_label :: string
  fr_title :: string
  fr_curve :: "(fl list \<times> string) option"

text \<open>Lines 272 to 286: the label, the title and the entries of the second level.\<close>

definition level1_branch ::
  "attrs option \<Rightarrow> fl \<Rightarrow> string \<Rightarrow> py_error + (string \<times> string \<times> fl \<times> fl)" where
  "level1_branch level1_group g title =
    (case level1_group of
       Some level1_attrs \<Rightarrow>
         bind_result (getitem level1_attrs ''nu_pre'') (\<lambda>pre1.
         bind_result (getitem level1_attrs ''nu_post'') (\<lambda>post1.
           Inr ((if fl_gt g 1 then ''MLHMC  W-cycle'' else ''MLHMC V-cycle''),
                ''MLHMC '' @ title, pre1, post1)))
     | None \<Rightarrow> Inr (''HMC'', ''HMC '' @ title, Finite (- 1), Finite (- 1)))"

text \<open>
  The body of the file loop (lines 234 to 303) in the order of the source: \<open>None\<close> when
  the observable is not in the file (the file adds nothing to the lists). Calls of the
  plotting library are left out; what is computed for them is kept.
\<close>

definition info_plot_file :: "string \<Rightarrow> h5file \<Rightarrow> py_error + file_result option" where
  "info_plot_file observable_name f =
    (case level0 f of
       None \<Rightarrow> Inl AttributeError
     | Some level0_group \<Rightarrow>
    (case l0_measurements level0_group of
       None \<Rightarrow> Inl TypeError
     | Some measurements_group \<Rightarrow>
    (case measurements_group observable_name of
       None \<Rightarrow> Inr None
     | Some observable_group \<Rightarrow>
       bind_result (checkpoint_loop (og_attrs observable_group) checkpoint_range
                      ([], [], [], [])) (\<lambda>(temp_t, temp_e, temp_x, last_sufix).
       bind_result (title_of (file_name f)) (\<lambda>title.
       bind_result (getitem (og_attrs observable_group)
                      (''int_auto_correlation_time'' @ last_sufix)) (\<lambda>t.
       bind_result (getitem (og_attrs observable_group)
                      (''int_auto_correlation_time_bias'' @ last_sufix)) (\<lambda>b.
       bind_result (getitem (og_attrs observable_group)
                      (''int_auto_correlation_time_stat_error'' @ last_sufix)) (\<lambda>s.
       bind_result (getitem (l0_attrs level0_group) ''gamma'') (\<lambda>g.
       bind_result (case l0_h level0_group of None \<Rightarrow> Inl TypeError | Some n \<Rightarrow> Inr n) (\<lambda>n.
       bind_result (getitem (l0_attrs level0_group) ''tick_time'') (\<lambda>tick.
       bind_result (getitem (l0_attrs level0_group) ''inter_type'') (\<lambda>inter.
       bind_result (getitem (l0_attrs level0_group) ''nu_pre'') (\<lambda>pre0.
       bind_result (getitem (l0_attrs level0_group) ''nu_post'') (\<lambda>post0.
       bind_result (level1_branch (level1 f) g title) (\<lambda>(label, title', pre1, post1).
       bind_result
         (if n = 32 * 32 then
            bind_result (make_auto_correlation_plot_to_ax observable_name measurements_group
                           last_sufix label) (\<lambda>c. Inr (Some c))
          else Inr None) (\<lambda>curve.
         Inr (Some
           \<lparr> fr_run =
               \<lparr> int_auto_correlation_time = t,
                 int_auto_correlation_time_bias = b,
                 int_auto_correlation_time_stat_error = s,
                 gamma = g,
                 system_size = n,
                 tick_time = tick,
                 interpolation_type = inter,
                 nu_pre_level0 = pre0,
                 nu_post_level0 = post0,
                 nu_pre_level1 = pre1,
                 nu_post_level1 = post1 \<rparr>,
             fr_label = label,
             fr_title = title',
             fr_curve = curve \<rparr>)))))))))))))))))"

text \<open>The file loop: the runs in file order; the first exception ends it.\<close>

fun info_plot_files :: "string \<Rightarrow> h5file list \<Rightarrow> run list \<Rightarrow> py_error + run list" where
  "info_plot_files observable_name [] acc = Inr acc"
| "info_plot_files observable_name (f # fs) acc =
    (case info_plot_file observable_name f of
       Inl e \<Rightarrow> Inl e
     | Inr None \<Rightarrow> info_plot_files observable_name fs acc
     | Inr (Some res) \<Rightarrow> info_plot_files observable_name fs (acc @ [fr_run res]))"

section \<open>Fit vectors: the aggregation loop of \<open>info_plot\<close>\<close>

record fit_vectors =
  x_wo_bias_correction_hmc :: "fl list"
  y_wo_bias_correction_hmc :: "fl list"
  yerr_wo_bias_correction_hmc :: "fl list"
  x_wo_bias_correction_multi_hmc :: "fl list"
  y_wo_bias_correction_multi_hmc :: "fl list"
  yerr_wo_bias_correction_multi_hmc :: "fl list"
  y_w_bias_correction_hmc :: "fl list"
  y_w_bias_correction_multi_hmc :: "fl list"

definition empty_vectors :: fit_vectors where
  "empty_vectors =
    \<lparr> x_wo_bias_correction_hmc = [], y_wo_bias_correction_hmc = [],
      yerr_wo_bias_correction_hmc = [], x_wo_bias_correction_multi_hmc = [],
      y_wo_bias_correction_multi_hmc = [], yerr_wo_bias_correction_multi_hmc = [],
      y_w_bias_correction_hmc = [], y_w_bias_correction_multi_hmc = [] \<rparr>"

text \<open>
  The two groups of appends of the loop body. \<open>np.sqrt(system_size[i])\<close> of a site count is
  the finite value \<open>Finite (sqrt (real (system_size r)))\<close>.
\<close>

definition append_hmc :: "run \<Rightarrow> fit_vectors \<Rightarrow> fit_vectors" where
  "append_hmc r v =
    v\<lparr> x_wo_bias_correction_hmc := x_wo_bias_correction_hmc v @ [Finite (sqrt (real (system_size r)))],
       y_wo_bias_correction_hmc := y_wo_bias_correction_hmc v @ [int_auto_correlation_time r],
       y_w_bias_correction_hmc := y_w_bias_correction_hmc v @
         [fl_add (int_auto_correlation_time r) (int_auto_correlation_time_bias r)],
       yerr_wo_bias_correction_hmc := yerr_wo_bias_correction_hmc v @
         [int_auto_correlation_time_stat_error r] \<rparr>"

definition append_multi_hmc :: "run \<Rightarrow> fit_vectors \<Rightarrow> fit_vectors" where
  "append_multi_hmc r v =
    v\<lparr> x_wo_bias_correction_multi_hmc := x_wo_bias_correction_multi_hmc v @ [Finite (sqrt (real (system_size r)))],
       y_wo_bias_correction_multi_hmc := y_wo_bias_correction_multi_hmc v @
         [int_auto_correlation_time r],
       y_w_bias_correction_multi_hmc := y_w_bias_correction_multi_hmc v @
         [fl_add (int_auto_correlation_time r) (int_auto_correlation_time_bias r)],
       yerr_wo_bias_correction_multi_hmc := yerr_wo_bias_correction_multi_hmc v @
         [int_auto_correlation_time_stat_error r] \<rparr>"

text \<open>One iteration of \<open>for i, nu_pre in enumerate(nu_pre_level1)\<close>.\<close>

definition aggregate_step :: "fit_vectors \<Rightarrow> run \<Rightarrow> fit_vectors" where
  "aggregate_step v r =
    (if nu_pre_level1 r = Finite (- 1) then
       (if system_size r < 33 * 33 then
          (let v' = append_hmc r v in
           if system_size r < 5 * 5 then append_multi_hmc r v' else v')
        else v)
     else
       (if system_size r < 33 * 33 then append_multi_hmc r v else v))"

definition aggregate :: "run list \<Rightarrow> fit_vectors" where
  "aggregate runs = foldl aggregate_step empty_vectors runs"

section \<open>The fits of \<open>info_plot\<close>\<close>

text \<open>
  \<open>scipy.optimize.curve_fit(fit_function, x, y, sigma=yerr)\<close> is a library routine: it
  either raises or returns the pair \<open>(popt, pcov)\<close> of the two fitted coefficients and
  their covariance matrix. It is a parameter of the model.
\<close>

record curve_fit_result =
  popt :: "fl \<times> fl"
  pcov :: "(fl \<times> fl) \<times> (fl \<times> fl)"

type_synonym solver = "fl list \<Rightarrow> fl list \<Rightarrow> fl list \<Rightarrow> py_error + curve_fit_result"

text \<open>
  A line printed to the output file: the class, the observable, \<open>popt[0]\<close>,
  \<open>np.sqrt(pcov[0, 0])\<close>, \<open>popt[1]\<close> and \<open>np.sqrt(pcov[1, 1])\<close>. The chi-square figure
  printed after them is double arithmetic on the vectors and is not carried by the model.
\<close>

record report_line =
  line_class :: string
  line_observable :: string
  line_a :: fl
  line_a_err :: fl
  line_z :: fl
  line_z_err :: fl

definition print_line :: "string \<Rightarrow> string \<Rightarrow> curve_fit_result \<Rightarrow> report_line" where
  "print_line cls observable_name res =
    \<lparr> line_class = cls, line_observable = observable_name,
      line_a = fst (popt res), line_a_err = fl_sqrt (fst (fst (pcov res))),
      line_z = snd (popt res), line_z_err = fl_sqrt (snd (snd (pcov res))) \<rparr>"

text \<open>
  The four calls of \<open>curve_fit\<close> in their order. No call is inside a \<open>try\<close>: an exception
  leaves \<open>info_plot\<close>. The result is the lines printed so far and the exception, if any.
\<close>

definition info_plot_fits ::
  "solver \<Rightarrow> string \<Rightarrow> fit_vectors \<Rightarrow> report_line list \<times> py_error option" where
  "info_plot_fits curve_fit observable_name v =
    (case curve_fit (x_wo_bias_correction_hmc v) (y_wo_bias_correction_hmc v)
            (yerr_wo_bias_correction_hmc v) of
       Inl e \<Rightarrow> ([], Some e)
     | Inr res1 \<Rightarrow>
        (case curve_fit (x_wo_bias_correction_multi_hmc v) (y_wo_bias_correction_multi_hmc v)
                (yerr_wo_bias_correction_multi_hmc v) of
           Inl e \<Rightarrow> ([print_line ''HMC'' observable_name res1], Some e)
         | Inr res2 \<Rightarrow>
            (case curve_fit (x_wo_bias_correction_hmc v) (y_w_bias_correction_hmc v)
                    (yerr_wo_bias_correction_hmc v) of
               Inl e \<Rightarrow>
                 ([print_line ''HMC'' observable_name res1,
                   print_line ''MLHMC'' observable_name res2], Some e)
             | Inr res3 \<Rightarrow>
                (case curve_fit (x_wo_bias_correction_multi_hmc v)
                        (y_w_bias_correction_multi_hmc v)
                        (yerr_wo_bias_correction_multi_hmc v) of
                   Inl e \<Rightarrow>
                     ([print_line ''HMC'' observable_name res1,
                       print_line ''MLHMC'' observable_name res2], Some e)
                 | Inr res4 \<Rightarrow>
                     ([print_line ''HMC'' observable_name res1,
                       print_line ''MLHMC'' observable_name res2], None)))))"

text \<open>\<open>info_plot\<close>: the file loop, the aggregation loop, the fits.\<close>

definition info_plot ::
  "solver \<Rightarrow> string \<Rightarrow> h5file list \<Rightarrow> report_line list \<times> py_error option" where
  "info_plot curve_fit observable_name files =
    (case info_plot_files observable_name files [] of
       Inl e \<Rightarrow> ([], Some e)
     | Inr runs \<Rightarrow> info_plot_fits curve_fit observable_name (aggregate runs))"

section \<open>The exact thermodynamic-limit functions\<close>

text \<open>
  The three closed forms are arithmetic on doubles; they are modelled on the reals.
\<close>

definition magnetization_exact :: "real \<Rightarrow> real" where
  "magnetization_exact beta =
    (if beta < 0.440686793509772 then 0
     else (1 - 1 / sinh (2 * beta) ^ 4) powr (1 / 8))"

text \<open>
  \<open>scipy.special.ellipk(m)\<close> and \<open>scipy.special.ellipe(m)\<close> are library routines: the
  complete elliptic integrals of the first and second kind as functions of the parameter
  \<open>m\<close>, the square of the modulus. They are given here by their power series in \<open>m\<close>,
  which are the integrals for \<open>0 \<le> m < 1\<close>.
\<close>

definition ellipk :: "real \<Rightarrow> real" where
  "ellipk m = pi / 2 * (\<Sum>n. (real ((2 * n) choose n) / 4 ^ n) ^ 2 * m ^ n)"

definition ellipe :: "real \<Rightarrow> real" where
  "ellipe m =
    pi / 2 * (1 - (\<Sum>n. (real ((2 * Suc n) choose Suc n) / 4 ^ Suc n) ^ 2 * m ^ Suc n
                        / (2 * real (Suc n) - 1)))"

definition ene_exact :: "real \<Rightarrow> real" where
  "ene_exact J =
    (let J2 = 2 * J;
         k = 4 * sinh J2 ^ 2 / cosh J2 ^ 4;
         eK = ellipk k;
         answer = 1 + (2 / pi) * (2 * tanh J2 ^ 2 - 1) * eK
     in - J * cosh J2 * answer / sinh J2)"

definition specific_heat_exact :: "real \<Rightarrow> real" where
  "specific_heat_exact beta =
    (let B2 = 2 * beta;
         k = 4 * sinh B2 ^ 2 / cosh B2 ^ 4;
         Kk = ellipk k;
         Ek = ellipe k;
         kp = 2 * (tanh B2 ^ 2) - 1;
         answer = 2 * Kk - 2 * Ek - (1 - kp) * ((pi / 2) + kp * Kk)
     in ((2 * beta ^ 2 / pi) / (tanh B2 ^ 2)) * answer)"

section \<open>Example files\<close>

text \<open>
  Result files used as concrete inputs below. \<open>hmc_file\<close> is a single-level run on a
  \<open>4 * 4\<close> grid with plain attributes only. \<open>mlhmc_file\<close> is a two-level run on a
  \<open>16 * 16\<close> grid with \<open>gamma = 3\<close> and the checkpoints \<open>_2000_100000\<close> and \<open>_3000_100000\<close>.
  \<open>sentinel_file\<close> is \<open>mlhmc_file\<close> with the attribute \<open>nu_pre = -1\<close> in its group \<open>level1\<close>.
  \<open>hmc_run\<close>, \<open>mlhmc_run\<close> and \<open>sentinel_run\<close> are the entries that the file loop appends
  for them.
\<close>

definition level_attrs :: "real \<Rightarrow> attrs" where
  "level_attrs g =
    [''gamma'' \<mapsto> Finite g, ''tick_time'' \<mapsto> Finite 1, ''inter_type'' \<mapsto> Finite 0,
     ''nu_pre'' \<mapsto> Finite 1, ''nu_post'' \<mapsto> Finite 1]"

definition hmc_attrs :: attrs where
  "hmc_attrs =
    [''int_auto_correlation_time'' \<mapsto> Finite 3,
     ''int_auto_correlation_time_bias'' \<mapsto> Finite 0,
     ''int_auto_correlation_time_stat_error'' \<mapsto> Finite 1]"

definition hmc_observable :: observable_group where
  "hmc_observable = \<lparr> og_attrs = hmc_attrs, og_datasets = Map.empty \<rparr>"

definition hmc_level0 :: level0_group where
  "hmc_level0 =
    \<lparr> l0_attrs = level_attrs 1, l0_h = Some 16,
      l0_measurements = Some [''magnetization'' \<mapsto> hmc_observable] \<rparr>"

definition hmc_file :: h5file where
  "hmc_file =
    \<lparr> file_name = ''volume_exponent_test/out_gs4.h5'',
      level0 = Some hmc_level0,
      level1 = None \<rparr>"

definition hmc_run :: run where
  "hmc_run =
    \<lparr> int_auto_correlation_time = Finite 3, int_auto_correlation_time_bias = Finite 0,
      int_auto_correlation_time_stat_error = Finite 1, gamma = Finite 1, system_size = 16,
      tick_time = Finite 1, interpolation_type = Finite 0, nu_pre_level0 = Finite 1,
      nu_post_level0 = Finite 1, nu_pre_level1 = Finite (- 1),
      nu_post_level1 = Finite (- 1) \<rparr>"

definition mlhmc_attrs :: attrs where
  "mlhmc_attrs =
    [''int_auto_correlation_time'' \<mapsto> Finite 9,
     ''int_auto_correlation_time_bias'' \<mapsto> Finite 9,
     ''int_auto_correlation_time_stat_error'' \<mapsto> Finite 9,
     ''int_auto_correlation_time_2000_100000'' \<mapsto> Finite 5,
     ''int_auto_correlation_time_bias_2000_100000'' \<mapsto> Finite 0,
     ''int_auto_correlation_time_stat_error_2000_100000'' \<mapsto> Finite 2,
     ''int_auto_correlation_time_3000_100000'' \<mapsto> Finite 6,
     ''int_auto_correlation_time_bias_3000_100000'' \<mapsto> Finite 0,
     ''int_auto_correlation_time_stat_error_3000_100000'' \<mapsto> Finite 2]"

definition mlhmc_observable :: observable_group where
  "mlhmc_observable = \<lparr> og_attrs = mlhmc_attrs, og_datasets = Map.empty \<rparr>"

definition mlhmc_level0 :: level0_group where
  "mlhmc_level0 =
    \<lparr> l0_attrs = level_attrs 3, l0_h = Some 256,
      l0_measurements = Some [''magnetization'' \<mapsto> mlhmc_observable] \<rparr>"

definition mlhmc_file :: h5file where
  "mlhmc_file =
    \<lparr> file_name = ''volume_exponent_test/out_gs16.h5'',
      level0 = Some mlhmc_level0,
      level1 = Some [''nu_pre'' \<mapsto> Finite 2, ''nu_post'' \<mapsto> Finite 2] \<rparr>"

definition mlhmc_run :: run where
  "mlhmc_run =
    \<lparr> int_auto_correlation_time = Finite 5, int_auto_correlation_time_bias = Finite 0,
      int_auto_correlation_time_stat_error = Finite 2, gamma = Finite 3, system_size = 256,
      tick_time = Finite 1, interpolation_type = Finite 0, nu_pre_level0 = Finite 1,
      nu_post_level0 = Finite 1, nu_pre_level1 = Finite 2, nu_post_level1 = Finite 2 \<rparr>"



text \<open>
  A stand-in for \<open>curve_fit\<close> on the two-parameter \<open>fit_function\<close>, with the behaviour of
  the library on few points: with fewer points than parameters it raises \<open>TypeError\<close>,
  otherwise it returns coefficients (here fixed ones), and a covariance of \<open>inf\<close>.
\<close>

definition example_curve_fit :: solver where
  "example_curve_fit xdata ydata sigma =
    (if length ydata < 2 then Inl (OtherError ''TypeError'')
     else Inr \<lparr> popt = (Finite 1, Finite 2), pcov = ((PInf, PInf), (PInf, PInf)) \<rparr>)"

declare py_range.simps [simp del]

section \<open>The file loop\<close>

lemma bind_result_simps [simp]:
  "bind_result (Inr x) k = k x"
  "bind_result (Inl e) k = Inl e"
  by (simp_all add: bind_result_def)

lemma sufix_nonempty: "sufix i \<noteq> []"
  by (simp add: sufix_def)

lemma py_range_lower: "x \<in> set (py_range a b c) \<Longrightarrow> a \<le> x"
proof (induction a b c rule: py_range.induct)
  case (1 start stop step)
  show ?case
  proof (cases "start < stop \<and> 0 < step")
    case True
    with "1.prems" have "x = start \<or> x \<in> set (py_range (start + step) stop step)"
      by (subst (asm) py_range.simps) simp
    with True "1.IH" show ?thesis by auto
  next
    case False
    have "py_range start stop step = []"
      by (subst py_range.simps, simp only: False if_False)
    with "1.prems" show ?thesis by simp
  qed
qed

lemma py_range_sorted: "sorted (py_range a b c)"
proof (induction a b c rule: py_range.induct)
  case (1 start stop step)
  show ?case
  proof (cases "start < stop \<and> 0 < step")
    case True
    have "\<forall>x\<in>set (py_range (start + step) stop step). start \<le> x"
      using py_range_lower by fastforce
    moreover from True "1.IH" have "sorted (py_range (start + step) stop step)"
      by blast
    moreover from True
    have "py_range start stop step = start # py_range (start + step) stop step"
      by (subst py_range.simps) simp
    ultimately show ?thesis by simp
  next
    case False
    have "py_range start stop step = []"
      by (subst py_range.simps, simp only: False if_False)
    then show ?thesis by simp
  qed
qed

lemma find_first_sorted:
  "sorted xs \<Longrightarrow> i \<in> set xs \<Longrightarrow> P i \<Longrightarrow> \<forall>j\<in>set xs. j < i \<longrightarrow> \<not> P j
     \<Longrightarrow> find P xs = Some (i::nat)"
proof (induction xs)
  case Nil
  then show ?case by simp
next
  case (Cons x xs)
  show ?case
  proof (cases "P x")
    case True
    have "x = i"
    proof (rule ccontr)
      assume "x \<noteq> i"
      with Cons.prems have "i \<in> set xs" by simp
      with Cons.prems(1) have "x \<le> i" by simp
      with \<open>x \<noteq> i\<close> have "x < i" by simp
      with Cons.prems(4) True show False by simp
    qed
    with True show ?thesis by simp
  next
    case False
    with Cons.prems have "i \<in> set xs" by auto
    with Cons False show ?thesis by simp
  qed
qed

lemma find_none: "\<forall>j\<in>set xs. \<not> P j \<Longrightarrow> find P xs = None"
  by (induction xs) simp_all

lemma checkpoint_loop_total:
  assumes "\<forall>j\<in>set cs. (''int_auto_correlation_time'' @ sufix j) \<in> dom a \<longrightarrow>
             (''int_auto_correlation_time_stat_error'' @ sufix j) \<in> dom a"
  shows "\<exists>ts' es' xs'. checkpoint_loop a cs (ts, es, xs, lsuf) =
           Inr (ts', es', xs',
             (if lsuf \<noteq> [] then lsuf
              else (case find (\<lambda>i. (''int_auto_correlation_time'' @ sufix i) \<in> dom a) cs of
                      None \<Rightarrow> [] | Some i \<Rightarrow> sufix i)))"
  using assms
proof (induction cs arbitrary: ts es xs lsuf)
  case Nil
  then show ?case by simp
next
  case (Cons c cs)
  from Cons.prems have rest:
    "\<forall>j\<in>set cs. (''int_auto_correlation_time'' @ sufix j) \<in> dom a \<longrightarrow>
       (''int_auto_correlation_time_stat_error'' @ sufix j) \<in> dom a" by simp
  show ?case
  proof (cases "(''int_auto_correlation_time'' @ sufix c) \<in> dom a")
    case True
    with Cons.prems obtain t s where
      t: "a (''int_auto_correlation_time'' @ sufix c) = Some t" and
      s: "a (''int_auto_correlation_time_stat_error'' @ sufix c) = Some s"
      by auto
    from Cons.IH [OF rest, of "ts @ [t]" "es @ [s]" "xs @ [100000 - int c]"
        "if length lsuf = 0 then sufix c else lsuf"]
    show ?thesis using True t s
      by (auto simp add: getitem_def sufix_nonempty)
  next
    case False
    from Cons.IH [OF rest, of ts es xs lsuf] show ?thesis using False by auto
  qed
qed

lemma checkpoint_loop_error:
  assumes "c \<in> set cs"
    and "(''int_auto_correlation_time'' @ sufix c) \<in> dom a"
    and "(''int_auto_correlation_time_stat_error'' @ sufix c) \<notin> dom a"
  shows "\<exists>k. checkpoint_loop a cs (ts, es, xs, lsuf) = Inl (KeyError k)"
  using assms
proof (induction cs arbitrary: ts es xs lsuf)
  case Nil
  then show ?case by simp
next
  case (Cons d cs)
  show ?case
  proof (cases "(''int_auto_correlation_time'' @ sufix d) \<in> dom a")
    case False
    with Cons.prems have "c \<in> set cs" by auto
    from Cons.IH [OF this Cons.prems(2,3)] False show ?thesis by simp
  next
    case True
    then obtain t where t: "a (''int_auto_correlation_time'' @ sufix d) = Some t" by auto
    show ?thesis
    proof (cases "a (''int_auto_correlation_time_stat_error'' @ sufix d)")
      case None
      with True t show ?thesis by (simp add: getitem_def)
    next
      case (Some s)
      with Cons.prems have "c \<in> set cs" by auto
      from Cons.IH [OF this Cons.prems(2,3)] True t Some show ?thesis
        by (simp add: getitem_def)
    qed
  qed
qed

subsection \<open>The title\<close>

lemma split_sep_not_Nil: "split_sep c s \<noteq> []"
  by (induction s) (auto split: list.splits)

lemma split_sep_Cons_other:
  "x \<noteq> c \<Longrightarrow> split_sep c (x # xs) = (x # hd (split_sep c xs)) # tl (split_sep c xs)"
  using split_sep_not_Nil [of c xs] by (cases "split_sep c xs") simp_all

lemma split_sep_prefix:
  "c \<notin> set d \<Longrightarrow> split_sep c (d @ c # r) = d # split_sep c r"
proof (induction d)
  case Nil
  show ?case by simp
next
  case (Cons a d)
  then have "a \<noteq> c" and "c \<notin> set d" by auto
  with Cons.IH show ?case
    by (simp add: split_sep_Cons_other del: split_sep.simps)
qed

lemma item1_Cons: "xs \<noteq> [] \<Longrightarrow> item1 (x # xs) = Inr (hd xs)"
  by (cases xs) (simp_all add: item1_def)

lemma title_of_out:
  assumes "CHR ''/'' \<notin> set d"
  shows "title_of (d @ ''/out_'' @ n) =
    Inr (''Grid side length ='' @
           drop 2 (hd (split_sep CHR ''_'' (hd (split_sep CHR ''/'' n)))))"
proof -
  have 1: "split_sep CHR ''/'' (d @ ''/out_'' @ n) = d # split_sep CHR ''/'' (''out_'' @ n)"
    using split_sep_prefix [OF assms, of "''out_'' @ n"] by simp
  have 2: "hd (split_sep CHR ''/'' (''out_'' @ n)) = ''out_'' @ hd (split_sep CHR ''/'' n)"
    by (simp add: split_sep_Cons_other del: split_sep.simps)
  have 3: "split_sep CHR ''_'' (''out_'' @ r) = ''out'' # split_sep CHR ''_'' r" for r
    using split_sep_prefix [of "CHR ''_''" "''out''" r] by simp
  have a: "item1 (split_sep CHR ''/'' (d @ ''/out_'' @ n)) =
      Inr (''out_'' @ hd (split_sep CHR ''/'' n))"
    unfolding 1 by (simp only: item1_Cons [OF split_sep_not_Nil] 2)
  have b: "item1 (split_sep CHR ''_'' (''out_'' @ r)) = Inr (hd (split_sep CHR ''_'' r))" for r
    unfolding 3 by (simp only: item1_Cons [OF split_sep_not_Nil])
  show ?thesis
    unfolding title_of_def by (simp only: a b bind_result_simps)
qed

lemma info_plot_file_returns:
  assumes f0: "level0 f = Some g0"
    and mg: "l0_measurements g0 = Some mg"
    and og: "mg observable_name = Some og"
    and name: "file_name f = d @ ''/out_'' @ n" and d: "CHR ''/'' \<notin> set d"
    and errs: "\<forall>j\<in>set checkpoint_range.
        (''int_auto_correlation_time'' @ sufix j) \<in> dom (og_attrs og) \<longrightarrow>
        (''int_auto_correlation_time_stat_error'' @ sufix j) \<in> dom (og_attrs og)"
    and suf: "suf =
        (case find (\<lambda>i. (''int_auto_correlation_time'' @ sufix i) \<in> dom (og_attrs og))
                checkpoint_range of
           None \<Rightarrow> [] | Some i \<Rightarrow> sufix i)"
    and t: "og_attrs og (''int_auto_correlation_time'' @ suf) = Some t"
    and b: "og_attrs og (''int_auto_correlation_time_bias'' @ suf) = Some b"
    and s: "og_attrs og (''int_auto_correlation_time_stat_error'' @ suf) = Some s"
    and g: "l0_attrs g0 ''gamma'' = Some g"
    and h: "l0_h g0 = Some sz"
    and tick: "l0_attrs g0 ''tick_time'' = Some tick"
    and inter: "l0_attrs g0 ''inter_type'' = Some itp"
    and pre0: "l0_attrs g0 ''nu_pre'' = Some pre0"
    and post0: "l0_attrs g0 ''nu_post'' = Some post0"
    and lv1: "\<forall>a1. level1 f = Some a1 \<longrightarrow> a1 ''nu_pre'' = Some pre1 \<and> a1 ''nu_post'' = Some post1"
    and ds: "sz = 32 * 32 \<longrightarrow> og_datasets og (''auto_correlation'' @ suf) = Some c"
  shows "info_plot_file observable_name f =
    Inr (Some
      \<lparr> fr_run =
          \<lparr> int_auto_correlation_time = t,
            int_auto_correlation_time_bias = b,
            int_auto_correlation_time_stat_error = s,
            gamma = g,
            system_size = sz,
            tick_time = tick,
            interpolation_type = itp,
            nu_pre_level0 = pre0,
            nu_post_level0 = post0,
            nu_pre_level1 = (if level1 f = None then Finite (- 1) else pre1),
            nu_post_level1 = (if level1 f = None then Finite (- 1) else post1) \<rparr>,
        fr_label =
          (if level1 f = None then ''HMC''
           else if fl_gt g 1 then ''MLHMC  W-cycle'' else ''MLHMC V-cycle''),
        fr_title =
          (if level1 f = None then ''HMC '' else ''MLHMC '') @ ''Grid side length ='' @
            drop 2 (hd (split_sep CHR ''_'' (hd (split_sep CHR ''/'' n)))),
        fr_curve =
          (if sz = 32 * 32
           then Some (c, (if level1 f = None then ''HMC''
                          else if fl_gt g 1 then ''MLHMC  W-cycle'' else ''MLHMC V-cycle''))
           else None) \<rparr>)"
proof -
  from checkpoint_loop_total [OF errs, of "[]" "[]" "[]" "[]"] suf
  obtain ts' es' xs' where
    loop: "checkpoint_loop (og_attrs og) checkpoint_range ([], [], [], []) =
             Inr (ts', es', xs', suf)"
    by auto
  define ttl0 where
    "ttl0 = ''Grid side length ='' @ drop 2 (hd (split_sep CHR ''_'' (hd (split_sep CHR ''/'' n))))"
  from title_of_out [OF d, of n] name have
    ttl: "title_of (file_name f) = Inr ttl0" by (simp add: ttl0_def)
  define lab where
    "lab = (if level1 f = None then ''HMC''
           else if fl_gt g 1 then ''MLHMC  W-cycle'' else ''MLHMC V-cycle'')"
  have br: "level1_branch (level1 f) g ttl0 =
           Inr (lab, (if level1 f = None then ''HMC '' else ''MLHMC '') @ ttl0,
                (if level1 f = None then Finite (- 1) else pre1),
                (if level1 f = None then Finite (- 1) else post1))"
  proof (cases "level1 f")
    case None
    then show ?thesis by (simp add: level1_branch_def lab_def)
  next
    case (Some a1)
    with lv1 have "a1 ''nu_pre'' = Some pre1" "a1 ''nu_post'' = Some post1" by auto
    with Some show ?thesis by (simp add: level1_branch_def getitem_def lab_def)
  qed
  have "info_plot_file observable_name f =
    Inr (Some
      \<lparr> fr_run =
          \<lparr> int_auto_correlation_time = t,
            int_auto_correlation_time_bias = b,
            int_auto_correlation_time_stat_error = s,
            gamma = g,
            system_size = sz,
            tick_time = tick,
            interpolation_type = itp,
            nu_pre_level0 = pre0,
            nu_post_level0 = post0,
            nu_pre_level1 = (if level1 f = None then Finite (- 1) else pre1),
            nu_post_level1 = (if level1 f = None then Finite (- 1) else post1) \<rparr>,
        fr_label = lab,
        fr_title = (if level1 f = None then ''HMC '' else ''MLHMC '') @ ttl0,
        fr_curve = (if sz = 32 * 32 then Some (c, lab) else None) \<rparr>)"
  proof (cases "sz = 32 * 32")
    case False
    then show ?thesis
      unfolding info_plot_file_def
      by (simp add: f0 mg og loop ttl getitem_def t b s g h tick inter pre0 post0 br
          del: fl_gt.simps append.simps)
  next
    case True
    with ds have c: "og_datasets og (''auto_correlation'' @ suf) = Some c" by auto
    from True show ?thesis
      unfolding info_plot_file_def
      by (simp add: f0 mg og loop ttl getitem_def t b s g h tick inter pre0 post0 br c
          make_auto_correlation_plot_to_ax_def del: fl_gt.simps append.simps)
  qed
  then show ?thesis
    unfolding lab_def ttl0_def .
qed

lemma info_plot_file_missing_dataset:
  assumes f0: "level0 f = Some g0"
    and mg: "l0_measurements g0 = Some mg"
    and og: "mg observable_name = Some og"
    and name: "file_name f = d @ ''/out_'' @ n" and d: "CHR ''/'' \<notin> set d"
    and errs: "\<forall>j\<in>set checkpoint_range.
        (''int_auto_correlation_time'' @ sufix j) \<in> dom (og_attrs og) \<longrightarrow>
        (''int_auto_correlation_time_stat_error'' @ sufix j) \<in> dom (og_attrs og)"
    and suf: "suf =
        (case find (\<lambda>i. (''int_auto_correlation_time'' @ sufix i) \<in> dom (og_attrs og))
                checkpoint_range of
           None \<Rightarrow> [] | Some i \<Rightarrow> sufix i)"
    and t: "og_attrs og (''int_auto_correlation_time'' @ suf) = Some t"
    and b: "og_attrs og (''int_auto_correlation_time_bias'' @ suf) = Some b"
    and s: "og_attrs og (''int_auto_correlation_time_stat_error'' @ suf) = Some s"
    and g: "l0_attrs g0 ''gamma'' = Some g"
    and h: "l0_h g0 = Some (32 * 32)"
    and tick: "l0_attrs g0 ''tick_time'' = Some tick"
    and inter: "l0_attrs g0 ''inter_type'' = Some itp"
    and pre0: "l0_attrs g0 ''nu_pre'' = Some pre0"
    and post0: "l0_attrs g0 ''nu_post'' = Some post0"
    and lv1: "\<forall>a1. level1 f = Some a1 \<longrightarrow> a1 ''nu_pre'' = Some pre1 \<and> a1 ''nu_post'' = Some post1"
    and ds: "(''auto_correlation'' @ suf) \<notin> dom (og_datasets og)"
  shows "info_plot_file observable_name f = Inl AttributeError"
proof -
  from checkpoint_loop_total [OF errs, of "[]" "[]" "[]" "[]"] suf
  obtain ts' es' xs' where
    loop: "checkpoint_loop (og_attrs og) checkpoint_range ([], [], [], []) =
             Inr (ts', es', xs', suf)"
    by auto
  from title_of_out [OF d, of n] name obtain ttl0 where
    ttl: "title_of (file_name f) = Inr ttl0" by simp
  obtain lab ttl1 p q where
    br: "level1_branch (level1 f) g ttl0 = Inr (lab, ttl1, p, q)"
  proof (cases "level1 f")
    case None
    then show ?thesis using that by (simp add: level1_branch_def)
  next
    case (Some a1)
    with lv1 have "a1 ''nu_pre'' = Some pre1" "a1 ''nu_post'' = Some post1" by auto
    with Some show ?thesis using that by (simp add: level1_branch_def getitem_def)
  qed
  from ds og have
    crv: "make_auto_correlation_plot_to_ax observable_name mg suf lab = Inl AttributeError"
    by (auto simp add: make_auto_correlation_plot_to_ax_def split: option.splits)
  show ?thesis
    unfolding info_plot_file_def
    by (simp add: f0 mg og loop ttl getitem_def t b s g h tick inter pre0 post0 br crv
        del: append.simps)
qed

lemma info_plot_files_member:
  assumes "info_plot_files observable_name fs acc = Inr runs"
  shows "set acc \<subseteq> set runs
    \<and> (\<forall>f\<in>set fs. \<forall>res. info_plot_file observable_name f = Inr (Some res)
          \<longrightarrow> fr_run res \<in> set runs)"
  using assms
proof (induction fs arbitrary: acc)
  case Nil
  then show ?case by simp
next
  case (Cons f fs)
  show ?case
  proof (cases "info_plot_file observable_name f")
    case (Inl e)
    with Cons.prems show ?thesis by simp
  next
    case (Inr r)
    show ?thesis
    proof (cases r)
      case None
      with Inr Cons.prems have "info_plot_files observable_name fs acc = Inr runs" by simp
      from Cons.IH [OF this] Inr None show ?thesis by auto
    next
      case (Some res)
      with Inr Cons.prems
      have "info_plot_files observable_name fs (acc @ [fr_run res]) = Inr runs" by simp
      from Cons.IH [OF this] Inr Some show ?thesis by auto
    qed
  qed
qed

subsection \<open>The checkpoints and their names\<close>

lemma set_py_range:
  "0 < c \<Longrightarrow> set (py_range a b c) = {a + c * k |k. a + c * k < b}"
proof (induction a b c rule: py_range.induct)
  case (1 start stop step)
  show ?case
  proof (cases "start < stop")
    case True
    with "1.prems" have eq:
      "py_range start stop step = start # py_range (start + step) stop step"
      by (subst py_range.simps) simp
    from True "1.prems" "1.IH" have ih:
      "set (py_range (start + step) stop step) =
         {start + step + step * k |k. start + step + step * k < stop}"
      by simp
    have "{start + step * k |k. start + step * k < stop} =
        insert start {start + step + step * k |k. start + step + step * k < stop}"
    proof (intro set_eqI iffI)
      fix x assume "x \<in> {start + step * k |k. start + step * k < stop}"
      then obtain k where k: "x = start + step * k" "start + step * k < stop" by auto
      show "x \<in> insert start {start + step + step * k |k. start + step + step * k < stop}"
      proof (cases k)
        case 0
        with k show ?thesis by simp
      next
        case (Suc k')
        with k have "x = start + step + step * k'" "start + step + step * k' < stop"
          by simp_all
        then show ?thesis by blast
      qed
    next
      fix x
      assume "x \<in> insert start {start + step + step * k |k. start + step + step * k < stop}"
      then consider "x = start"
        | k where "x = start + step + step * k" "start + step + step * k < stop"
        by auto
      then show "x \<in> {start + step * k |k. start + step * k < stop}"
      proof cases
        case 1
        with True have "x = start + step * 0" "start + step * 0 < stop" by simp_all
        then show ?thesis by blast
      next
        case 2
        then have "x = start + step * Suc k" "start + step * Suc k < stop" by simp_all
        then show ?thesis by blast
      qed
    qed
    with eq ih show ?thesis by simp
  next
    case False
    then have "py_range start stop step = []"
      by (subst py_range.simps) simp
    moreover from False have "{start + step * k |k. start + step * k < stop} = {}"
      by auto
    ultimately show ?thesis by simp
  qed
qed

lemma set_checkpoint_range:
  "set checkpoint_range = {1000 * k |k. 1 \<le> k \<and> k \<le> 100}"
proof -
  have "set checkpoint_range = {1000 + 1000 * k |k::nat. 1000 + 1000 * k < 100001}"
    unfolding checkpoint_range_def by (rule set_py_range) simp
  also have "\<dots> = {1000 * k |k. 1 \<le> k \<and> k \<le> 100}"
  proof (intro set_eqI iffI)
    fix x :: nat assume "x \<in> {1000 + 1000 * k |k. 1000 + 1000 * k < 100001}"
    then obtain k where "x = 1000 + 1000 * k" "1000 + 1000 * k < 100001" by auto
    then have "x = 1000 * Suc k" "1 \<le> Suc k" "Suc k \<le> 100" by simp_all
    then show "x \<in> {1000 * k |k. 1 \<le> k \<and> k \<le> 100}" by blast
  next
    fix x :: nat assume "x \<in> {1000 * k |k. 1 \<le> k \<and> k \<le> 100}"
    then obtain k where k: "x = 1000 * k" "1 \<le> k" "k \<le> 100" by auto
    then obtain k' where "k = Suc k'" by (cases k) auto
    with k have "x = 1000 + 1000 * k'" "1000 + 1000 * k' < 100001" by simp_all
    then show "x \<in> {1000 + 1000 * k |k. 1000 + 1000 * k < 100001}" by blast
  qed
  finally show ?thesis .
qed

lemma digit_cases: "n < (10::nat) \<Longrightarrow> n \<in> {0, 1, 2, 3, 4, 5, 6, 7, 8, 9}"
  by auto

lemma digit_char_value: "n < 10 \<Longrightarrow> (of_char (''0123456789'' ! n) :: nat) = 48 + n"
  using digit_cases [of n] by auto

lemma digit_char_member: "n < 10 \<Longrightarrow> ''0123456789'' ! n \<in> set ''0123456789''"
  using digit_cases [of n] by auto

lemma digit_char_zero: "n < 10 \<Longrightarrow> 0 < n \<Longrightarrow> ''0123456789'' ! n \<noteq> CHR ''0''"
  using digit_cases [of n] by auto

lemma str_nat_nonempty: "str_nat n \<noteq> []"
  by (subst str_nat.simps) simp

lemma str_nat_decimal:
  "foldl (\<lambda>a c. 10 * a + (of_char c - 48)) 0 (str_nat n) = n
   \<and> set (str_nat n) \<subseteq> set ''0123456789''
   \<and> (0 < n \<longrightarrow> hd (str_nat n) \<noteq> CHR ''0'')"
proof (induction n rule: str_nat.induct)
  case (1 n)
  show ?case
  proof (cases "n < 10")
    case True
    then have s: "str_nat n = [''0123456789'' ! n]" by (subst str_nat.simps) simp
    from True show ?thesis
      unfolding s
      using digit_char_value [of n] digit_char_member [of n] digit_char_zero [of n]
      by simp
  next
    case False
    then have s: "str_nat n = str_nat (n div 10) @ [''0123456789'' ! (n mod 10)]"
      by (subst str_nat.simps) simp
    from False "1.IH" have ih:
      "foldl (\<lambda>a c. 10 * a + (of_char c - 48)) 0 (str_nat (n div 10)) = n div 10"
      "set (str_nat (n div 10)) \<subseteq> set ''0123456789''"
      "0 < n div 10 \<longrightarrow> hd (str_nat (n div 10)) \<noteq> CHR ''0''"
      by simp_all
    have m: "n mod 10 < 10" by simp
    from False have pos: "0 < n div 10" by (simp add: div_greater_zero_iff)
    have "foldl (\<lambda>a c. 10 * a + (of_char c - 48)) 0 (str_nat n) = 10 * (n div 10) + n mod 10"
      unfolding s using ih(1) digit_char_value [OF m] by simp
    moreover have "set (str_nat n) \<subseteq> set ''0123456789''"
      unfolding s using ih(2) digit_char_member [OF m] by simp
    moreover have "hd (str_nat n) \<noteq> CHR ''0''"
      unfolding s using ih(3) pos str_nat_nonempty [of "n div 10"] by simp
    ultimately show ?thesis by simp
  qed
qed

subsection \<open>The example files\<close>

lemma checkpoint_2000: "2000 \<in> set checkpoint_range"
  by (simp add: checkpoint_range_def py_range.simps)

lemma hmc_attrs_no_checkpoint:
  "\<forall>j\<in>set checkpoint_range. (''int_auto_correlation_time'' @ sufix j) \<notin> dom hmc_attrs"
  by (simp add: checkpoint_range_def py_range.simps sufix_def hmc_attrs_def)

lemma mlhmc_attrs_first_checkpoint:
  "\<forall>j\<in>set checkpoint_range. j < 2000 \<longrightarrow>
      (''int_auto_correlation_time'' @ sufix j) \<notin> dom mlhmc_attrs"
  by (simp add: checkpoint_range_def py_range.simps sufix_def mlhmc_attrs_def)

lemma mlhmc_attrs_errors_present:
  "\<forall>j\<in>set checkpoint_range.
      (''int_auto_correlation_time'' @ sufix j) \<in> dom mlhmc_attrs \<longrightarrow>
      (''int_auto_correlation_time_stat_error'' @ sufix j) \<in> dom mlhmc_attrs"
  by (simp add: checkpoint_range_def py_range.simps sufix_def mlhmc_attrs_def)

lemma hmc_attrs_find:
  "find (\<lambda>i. (''int_auto_correlation_time'' @ sufix i) \<in> dom hmc_attrs) checkpoint_range = None"
  using hmc_attrs_no_checkpoint by (intro find_none) auto

lemma mlhmc_attrs_find:
  "find (\<lambda>i. (''int_auto_correlation_time'' @ sufix i) \<in> dom mlhmc_attrs) checkpoint_range
     = Some 2000"
proof -
  have "sorted checkpoint_range" by (simp add: checkpoint_range_def py_range_sorted)
  moreover have "(''int_auto_correlation_time'' @ sufix 2000) \<in> dom mlhmc_attrs"
    by (simp add: sufix_def mlhmc_attrs_def)
  ultimately show ?thesis
    using checkpoint_2000 mlhmc_attrs_first_checkpoint by (intro find_first_sorted) auto
qed

text \<open>
  The file loop on a readable file, with the checkpoints counted by \<open>k\<close>: checkpoint \<open>k\<close>
  is the suffix \<open>_i_100000\<close> for \<open>i = 1000 * k\<close>, \<open>k = 1, ..., 100\<close>, and \<open>k = 0\<close> stands for
  no checkpoint.
\<close>

lemma info_plot_file_result:
  assumes f0: "level0 f = Some g0"
    and mg: "l0_measurements g0 = Some mg"
    and og: "mg observable_name = Some og"
    and name: "file_name f = d @ ''/out_'' @ n" and d: "CHR ''/'' \<notin> set d"
    and sel: "(k = 0 \<and> suf = [] \<and>
          (\<forall>k'. 1 \<le> k' \<and> k' \<le> 100 \<longrightarrow>
             (''int_auto_correlation_time'' @ sufix (1000 * k')) \<notin> dom (og_attrs og)))
        \<or> (1 \<le> k \<and> k \<le> 100 \<and> suf = sufix (1000 * k) \<and>
          (''int_auto_correlation_time'' @ sufix (1000 * k)) \<in> dom (og_attrs og) \<and>
          (\<forall>k'. 1 \<le> k' \<and> k' \<le> 100 \<and>
             (''int_auto_correlation_time'' @ sufix (1000 * k')) \<in> dom (og_attrs og)
             \<longrightarrow> k \<le> k'))"
    and errs: "\<forall>k'. 1 \<le> k' \<and> k' \<le> 100 \<and>
        (''int_auto_correlation_time'' @ sufix (1000 * k')) \<in> dom (og_attrs og) \<longrightarrow>
        (''int_auto_correlation_time_stat_error'' @ sufix (1000 * k')) \<in> dom (og_attrs og)"
    and t: "og_attrs og (''int_auto_correlation_time'' @ suf) = Some t"
    and b: "og_attrs og (''int_auto_correlation_time_bias'' @ suf) = Some b"
    and s: "og_attrs og (''int_auto_correlation_time_stat_error'' @ suf) = Some s"
    and g: "l0_attrs g0 ''gamma'' = Some g"
    and h: "l0_h g0 = Some sz"
    and tick: "l0_attrs g0 ''tick_time'' = Some tick"
    and inter: "l0_attrs g0 ''inter_type'' = Some itp"
    and pre0: "l0_attrs g0 ''nu_pre'' = Some pre0"
    and post0: "l0_attrs g0 ''nu_post'' = Some post0"
    and lv1: "\<forall>a1. level1 f = Some a1 \<longrightarrow> a1 ''nu_pre'' = Some pre1 \<and> a1 ''nu_post'' = Some post1"
    and ds: "sz = 32 * 32 \<longrightarrow> og_datasets og (''auto_correlation'' @ suf) = Some c"
  shows "info_plot_file observable_name f =
    Inr (Some
      \<lparr> fr_run =
          \<lparr> int_auto_correlation_time = t,
            int_auto_correlation_time_bias = b,
            int_auto_correlation_time_stat_error = s,
            gamma = g,
            system_size = sz,
            tick_time = tick,
            interpolation_type = itp,
            nu_pre_level0 = pre0,
            nu_post_level0 = post0,
            nu_pre_level1 = (if level1 f = None then Finite (- 1) else pre1),
            nu_post_level1 = (if level1 f = None then Finite (- 1) else post1) \<rparr>,
        fr_label =
          (if level1 f = None then ''HMC''
           else if fl_gt g 1 then ''MLHMC  W-cycle'' else ''MLHMC V-cycle''),
        fr_title =
          (if level1 f = None then ''HMC '' else ''MLHMC '') @ ''Grid side length ='' @
            drop 2 (hd (split_sep CHR ''_'' (hd (split_sep CHR ''/'' n)))),
        fr_curve =
          (if sz = 32 * 32
           then Some (c, (if level1 f = None then ''HMC''
                          else if fl_gt g 1 then ''MLHMC  W-cycle'' else ''MLHMC V-cycle''))
           else None) \<rparr>)"
proof -
  let ?P = "\<lambda>i. (''int_auto_correlation_time'' @ sufix i) \<in> dom (og_attrs og)"
  have errs': "\<forall>j\<in>set checkpoint_range. ?P j \<longrightarrow>
      (''int_auto_correlation_time_stat_error'' @ sufix j) \<in> dom (og_attrs og)"
    using errs unfolding set_checkpoint_range by blast
  have suf': "suf = (case find ?P checkpoint_range of None \<Rightarrow> [] | Some i \<Rightarrow> sufix i)"
  proof -
    from sel consider
      (none) "suf = []" "\<forall>k'. 1 \<le> k' \<and> k' \<le> 100 \<longrightarrow> \<not> ?P (1000 * k')"
      | (some) "1 \<le> k" "k \<le> 100" "suf = sufix (1000 * k)" "?P (1000 * k)"
          "\<forall>k'. 1 \<le> k' \<and> k' \<le> 100 \<and> ?P (1000 * k') \<longrightarrow> k \<le> k'"
      by blast
    then show ?thesis
    proof cases
      case none
      then have "\<forall>j\<in>set checkpoint_range. \<not> ?P j"
        unfolding set_checkpoint_range by blast
      then have "find ?P checkpoint_range = None" by (rule find_none)
      with none show ?thesis by simp
    next
      case some
      have "sorted checkpoint_range" by (simp add: checkpoint_range_def py_range_sorted)
      moreover from some have "1000 * k \<in> set checkpoint_range"
        unfolding set_checkpoint_range by blast
      moreover have "\<forall>j\<in>set checkpoint_range. j < 1000 * k \<longrightarrow> \<not> ?P j"
      proof (intro ballI impI)
        fix j assume "j \<in> set checkpoint_range" and lt: "j < 1000 * k"
        then obtain k' where k': "j = 1000 * k'" "1 \<le> k'" "k' \<le> 100"
          unfolding set_checkpoint_range by blast
        show "\<not> ?P j"
        proof
          assume "?P j"
          with k' some(5) have "k \<le> k'" by blast
          with lt k' show False by simp
        qed
      qed
      ultimately have "find ?P checkpoint_range = Some (1000 * k)"
        using some(4) by (intro find_first_sorted)
      with some show ?thesis by simp
    qed
  qed
  from info_plot_file_returns
    [OF f0 mg og name d errs' suf' t b s g h tick inter pre0 post0 lv1 ds]
  show ?thesis .
qed

subsection \<open>The example files are readable\<close>

lemma level_attrs_simps:
  "level_attrs g ''gamma'' = Some (Finite g)"
  "level_attrs g ''tick_time'' = Some (Finite 1)"
  "level_attrs g ''inter_type'' = Some (Finite 0)"
  "level_attrs g ''nu_pre'' = Some (Finite 1)"
  "level_attrs g ''nu_post'' = Some (Finite 1)"
  by (simp_all add: level_attrs_def)

lemma hmc_file_facts:
  "level0 hmc_file = Some hmc_level0"
  "l0_measurements hmc_level0 = Some [''magnetization'' \<mapsto> hmc_observable]"
  "[''magnetization'' \<mapsto> hmc_observable] ''magnetization'' = Some hmc_observable"
  "file_name hmc_file = ''volume_exponent_test'' @ ''/out_'' @ ''gs4.h5''"
  "CHR ''/'' \<notin> set ''volume_exponent_test''"
  "((0::nat) = 0 \<and> [] = [] \<and>
          (\<forall>k'. 1 \<le> k' \<and> k' \<le> 100 \<longrightarrow>
             (''int_auto_correlation_time'' @ sufix (1000 * k'))
               \<notin> dom (og_attrs hmc_observable)))
        \<or> (1 \<le> (0::nat) \<and> (0::nat) \<le> 100 \<and> [] = sufix (1000 * 0) \<and>
          (''int_auto_correlation_time'' @ sufix (1000 * 0)) \<in> dom (og_attrs hmc_observable) \<and>
          (\<forall>k'. 1 \<le> k' \<and> k' \<le> 100 \<and>
             (''int_auto_correlation_time'' @ sufix (1000 * k'))
               \<in> dom (og_attrs hmc_observable)
             \<longrightarrow> 0 \<le> k'))"
  "\<forall>k'. 1 \<le> k' \<and> k' \<le> 100 \<and>
        (''int_auto_correlation_time'' @ sufix (1000 * k')) \<in> dom (og_attrs hmc_observable) \<longrightarrow>
        (''int_auto_correlation_time_stat_error'' @ sufix (1000 * k'))
          \<in> dom (og_attrs hmc_observable)"
  "og_attrs hmc_observable (''int_auto_correlation_time'' @ []) = Some (Finite 3)"
  "og_attrs hmc_observable (''int_auto_correlation_time_bias'' @ []) = Some (Finite 0)"
  "og_attrs hmc_observable (''int_auto_correlation_time_stat_error'' @ []) = Some (Finite 1)"
  "l0_attrs hmc_level0 ''gamma'' = Some (Finite 1)"
  "l0_h hmc_level0 = Some 16"
  "l0_attrs hmc_level0 ''tick_time'' = Some (Finite 1)"
  "l0_attrs hmc_level0 ''inter_type'' = Some (Finite 0)"
  "l0_attrs hmc_level0 ''nu_pre'' = Some (Finite 1)"
  "l0_attrs hmc_level0 ''nu_post'' = Some (Finite 1)"
  "\<forall>a1. level1 hmc_file = Some a1 \<longrightarrow>
      a1 ''nu_pre'' = Some (Finite 0) \<and> a1 ''nu_post'' = Some (Finite 0)"
  "(16::nat) = 32 * 32 \<longrightarrow>
      og_datasets hmc_observable (''auto_correlation'' @ []) = Some []"
proof -
  have none: "\<forall>k'. 1 \<le> k' \<and> k' \<le> 100 \<longrightarrow>
      (''int_auto_correlation_time'' @ sufix (1000 * k')) \<notin> dom hmc_attrs"
    using hmc_attrs_no_checkpoint unfolding set_checkpoint_range by blast
  have a: "og_attrs hmc_observable = hmc_attrs" by (simp add: hmc_observable_def)
  show "((0::nat) = 0 \<and> [] = [] \<and>
          (\<forall>k'. 1 \<le> k' \<and> k' \<le> 100 \<longrightarrow>
             (''int_auto_correlation_time'' @ sufix (1000 * k'))
               \<notin> dom (og_attrs hmc_observable)))
        \<or> (1 \<le> (0::nat) \<and> (0::nat) \<le> 100 \<and> [] = sufix (1000 * 0) \<and>
          (''int_auto_correlation_time'' @ sufix (1000 * 0)) \<in> dom (og_attrs hmc_observable) \<and>
          (\<forall>k'. 1 \<le> k' \<and> k' \<le> 100 \<and>
             (''int_auto_correlation_time'' @ sufix (1000 * k'))
               \<in> dom (og_attrs hmc_observable)
             \<longrightarrow> 0 \<le> k'))"
    unfolding a using none by blast
  show "\<forall>k'. 1 \<le> k' \<and> k' \<le> 100 \<and>
        (''int_auto_correlation_time'' @ sufix (1000 * k')) \<in> dom (og_attrs hmc_observable) \<longrightarrow>
        (''int_auto_correlation_time_stat_error'' @ sufix (1000 * k'))
          \<in> dom (og_attrs hmc_observable)"
    unfolding a using none by blast
qed (simp_all add: hmc_file_def hmc_level0_def hmc_observable_def hmc_attrs_def
       level_attrs_simps)

lemma mlhmc_file_facts:
  "level0 mlhmc_file = Some mlhmc_level0"
  "l0_measurements mlhmc_level0 = Some [''magnetization'' \<mapsto> mlhmc_observable]"
  "[''magnetization'' \<mapsto> mlhmc_observable] ''magnetization'' = Some mlhmc_observable"
  "file_name mlhmc_file = ''volume_exponent_test'' @ ''/out_'' @ ''gs16.h5''"
  "CHR ''/'' \<notin> set ''volume_exponent_test''"
  "((2::nat) = 0 \<and> sufix (1000 * 2) = [] \<and>
          (\<forall>k'. 1 \<le> k' \<and> k' \<le> 100 \<longrightarrow>
             (''int_auto_correlation_time'' @ sufix (1000 * k'))
               \<notin> dom (og_attrs mlhmc_observable)))
        \<or> (1 \<le> (2::nat) \<and> (2::nat) \<le> 100 \<and> sufix (1000 * 2) = sufix (1000 * 2) \<and>
          (''int_auto_correlation_time'' @ sufix (1000 * 2))
             \<in> dom (og_attrs mlhmc_observable) \<and>
          (\<forall>k'. 1 \<le> k' \<and> k' \<le> 100 \<and>
             (''int_auto_correlation_time'' @ sufix (1000 * k'))
               \<in> dom (og_attrs mlhmc_observable)
             \<longrightarrow> 2 \<le> k'))"
  "\<forall>k'. 1 \<le> k' \<and> k' \<le> 100 \<and>
        (''int_auto_correlation_time'' @ sufix (1000 * k'))
           \<in> dom (og_attrs mlhmc_observable) \<longrightarrow>
        (''int_auto_correlation_time_stat_error'' @ sufix (1000 * k'))
          \<in> dom (og_attrs mlhmc_observable)"
  "og_attrs mlhmc_observable (''int_auto_correlation_time'' @ sufix (1000 * 2))
     = Some (Finite 5)"
  "og_attrs mlhmc_observable (''int_auto_correlation_time_bias'' @ sufix (1000 * 2))
     = Some (Finite 0)"
  "og_attrs mlhmc_observable (''int_auto_correlation_time_stat_error'' @ sufix (1000 * 2))
     = Some (Finite 2)"
  "l0_attrs mlhmc_level0 ''gamma'' = Some (Finite 3)"
  "l0_h mlhmc_level0 = Some 256"
  "l0_attrs mlhmc_level0 ''tick_time'' = Some (Finite 1)"
  "l0_attrs mlhmc_level0 ''inter_type'' = Some (Finite 0)"
  "l0_attrs mlhmc_level0 ''nu_pre'' = Some (Finite 1)"
  "l0_attrs mlhmc_level0 ''nu_post'' = Some (Finite 1)"
  "\<forall>a1. level1 mlhmc_file = Some a1 \<longrightarrow>
      a1 ''nu_pre'' = Some (Finite 2) \<and> a1 ''nu_post'' = Some (Finite 2)"
  "(256::nat) = 32 * 32 \<longrightarrow>
      og_datasets mlhmc_observable (''auto_correlation'' @ sufix (1000 * 2)) = Some []"
proof -
  have a: "og_attrs mlhmc_observable = mlhmc_attrs" by (simp add: mlhmc_observable_def)
  have first: "\<forall>k'. 1 \<le> k' \<and> k' \<le> 100 \<and>
      (''int_auto_correlation_time'' @ sufix (1000 * k')) \<in> dom mlhmc_attrs \<longrightarrow> 2 \<le> k'"
  proof (intro allI impI)
    fix k' :: nat
    assume k': "1 \<le> k' \<and> k' \<le> 100 \<and>
      (''int_auto_correlation_time'' @ sufix (1000 * k')) \<in> dom mlhmc_attrs"
    then have "1000 * k' \<in> set checkpoint_range" unfolding set_checkpoint_range by blast
    with mlhmc_attrs_first_checkpoint k' have "\<not> 1000 * k' < 2000" by blast
    then show "2 \<le> k'" by simp
  qed
  have present: "(''int_auto_correlation_time'' @ sufix (1000 * 2)) \<in> dom mlhmc_attrs"
    by (simp add: sufix_def mlhmc_attrs_def)
  show "((2::nat) = 0 \<and> sufix (1000 * 2) = [] \<and>
          (\<forall>k'. 1 \<le> k' \<and> k' \<le> 100 \<longrightarrow>
             (''int_auto_correlation_time'' @ sufix (1000 * k'))
               \<notin> dom (og_attrs mlhmc_observable)))
        \<or> (1 \<le> (2::nat) \<and> (2::nat) \<le> 100 \<and> sufix (1000 * 2) = sufix (1000 * 2) \<and>
          (''int_auto_correlation_time'' @ sufix (1000 * 2))
             \<in> dom (og_attrs mlhmc_observable) \<and>
          (\<forall>k'. 1 \<le> k' \<and> k' \<le> 100 \<and>
             (''int_auto_correlation_time'' @ sufix (1000 * k'))
               \<in> dom (og_attrs mlhmc_observable)
             \<longrightarrow> 2 \<le> k'))"
    unfolding a using first present by simp
  show "\<forall>k'. 1 \<le> k' \<and> k' \<le> 100 \<and>
        (''int_auto_correlation_time'' @ sufix (1000 * k'))
           \<in> dom (og_attrs mlhmc_observable) \<longrightarrow>
        (''int_auto_correlation_time_stat_error'' @ sufix (1000 * k'))
          \<in> dom (og_attrs mlhmc_observable)"
    unfolding a using mlhmc_attrs_errors_present unfolding set_checkpoint_range by blast
qed (simp_all add: mlhmc_file_def mlhmc_level0_def mlhmc_observable_def mlhmc_attrs_def
       level_attrs_simps sufix_def)


lemma title_gs:
  "drop 2 (hd (split_sep CHR ''_'' (hd (split_sep CHR ''/'' ''gs4.h5'')))) = ''4.h5''"
  "drop 2 (hd (split_sep CHR ''_'' (hd (split_sep CHR ''/'' ''gs16.h5'')))) = ''16.h5''"
  by simp_all

lemma info_plot_file_hmc_file:
  "info_plot_file ''magnetization'' hmc_file =
     Inr (Some \<lparr> fr_run = hmc_run, fr_label = ''HMC'',
                 fr_title = ''HMC Grid side length =4.h5'', fr_curve = None \<rparr>)"
proof -
  have none: "level1 hmc_file = None" by (simp add: hmc_file_def)
  from info_plot_file_result [OF hmc_file_facts]
  show ?thesis unfolding none title_gs by (simp add: hmc_run_def)
qed

lemma info_plot_file_mlhmc_file:
  "info_plot_file ''magnetization'' mlhmc_file =
     Inr (Some \<lparr> fr_run = mlhmc_run, fr_label = ''MLHMC  W-cycle'',
                 fr_title = ''MLHMC Grid side length =16.h5'', fr_curve = None \<rparr>)"
proof -
  have some: "(level1 mlhmc_file = None) = False" by (simp add: mlhmc_file_def)
  from info_plot_file_result [OF mlhmc_file_facts]
  show ?thesis unfolding some title_gs by (simp add: mlhmc_run_def)
qed


section \<open>The fit vectors as filters of the run list\<close>

lemma foldl_x_hmc:
  "x_wo_bias_correction_hmc (foldl aggregate_step v rs) =
     x_wo_bias_correction_hmc v @
     map (\<lambda>r. Finite (sqrt (real (system_size r))))
       (filter (\<lambda>r. nu_pre_level1 r = Finite (- 1) \<and> system_size r < 33 * 33) rs)"
  by (induction rs arbitrary: v)
     (simp_all add: aggregate_step_def append_hmc_def append_multi_hmc_def Let_def)

lemma foldl_y_hmc:
  "y_wo_bias_correction_hmc (foldl aggregate_step v rs) =
     y_wo_bias_correction_hmc v @
     map int_auto_correlation_time
       (filter (\<lambda>r. nu_pre_level1 r = Finite (- 1) \<and> system_size r < 33 * 33) rs)"
  by (induction rs arbitrary: v)
     (simp_all add: aggregate_step_def append_hmc_def append_multi_hmc_def Let_def)

lemma foldl_yerr_hmc:
  "yerr_wo_bias_correction_hmc (foldl aggregate_step v rs) =
     yerr_wo_bias_correction_hmc v @
     map int_auto_correlation_time_stat_error
       (filter (\<lambda>r. nu_pre_level1 r = Finite (- 1) \<and> system_size r < 33 * 33) rs)"
  by (induction rs arbitrary: v)
     (simp_all add: aggregate_step_def append_hmc_def append_multi_hmc_def Let_def)

lemma foldl_y_w_bias_hmc:
  "y_w_bias_correction_hmc (foldl aggregate_step v rs) =
     y_w_bias_correction_hmc v @
     map (\<lambda>r. fl_add (int_auto_correlation_time r) (int_auto_correlation_time_bias r))
       (filter (\<lambda>r. nu_pre_level1 r = Finite (- 1) \<and> system_size r < 33 * 33) rs)"
  by (induction rs arbitrary: v)
     (simp_all add: aggregate_step_def append_hmc_def append_multi_hmc_def Let_def)

lemma foldl_x_multi:
  "x_wo_bias_correction_multi_hmc (foldl aggregate_step v rs) =
     x_wo_bias_correction_multi_hmc v @
     map (\<lambda>r. Finite (sqrt (real (system_size r))))
       (filter (\<lambda>r. if nu_pre_level1 r = Finite (- 1) then system_size r < 5 * 5
                     else system_size r < 33 * 33) rs)"
  by (induction rs arbitrary: v)
     (simp_all add: aggregate_step_def append_hmc_def append_multi_hmc_def Let_def)

lemma foldl_y_multi:
  "y_wo_bias_correction_multi_hmc (foldl aggregate_step v rs) =
     y_wo_bias_correction_multi_hmc v @
     map int_auto_correlation_time
       (filter (\<lambda>r. if nu_pre_level1 r = Finite (- 1) then system_size r < 5 * 5
                     else system_size r < 33 * 33) rs)"
  by (induction rs arbitrary: v)
     (simp_all add: aggregate_step_def append_hmc_def append_multi_hmc_def Let_def)

lemma foldl_yerr_multi:
  "yerr_wo_bias_correction_multi_hmc (foldl aggregate_step v rs) =
     yerr_wo_bias_correction_multi_hmc v @
     map int_auto_correlation_time_stat_error
       (filter (\<lambda>r. if nu_pre_level1 r = Finite (- 1) then system_size r < 5 * 5
                     else system_size r < 33 * 33) rs)"
  by (induction rs arbitrary: v)
     (simp_all add: aggregate_step_def append_hmc_def append_multi_hmc_def Let_def)

lemma foldl_y_w_bias_multi:
  "y_w_bias_correction_multi_hmc (foldl aggregate_step v rs) =
     y_w_bias_correction_multi_hmc v @
     map (\<lambda>r. fl_add (int_auto_correlation_time r) (int_auto_correlation_time_bias r))
       (filter (\<lambda>r. if nu_pre_level1 r = Finite (- 1) then system_size r < 5 * 5
                     else system_size r < 33 * 33) rs)"
  by (induction rs arbitrary: v)
     (simp_all add: aggregate_step_def append_hmc_def append_multi_hmc_def Let_def)

lemmas aggregate_vectors =
  foldl_x_hmc [of empty_vectors, folded aggregate_def]
  foldl_y_hmc [of empty_vectors, folded aggregate_def]
  foldl_yerr_hmc [of empty_vectors, folded aggregate_def]
  foldl_y_w_bias_hmc [of empty_vectors, folded aggregate_def]
  foldl_x_multi [of empty_vectors, folded aggregate_def]
  foldl_y_multi [of empty_vectors, folded aggregate_def]
  foldl_yerr_multi [of empty_vectors, folded aggregate_def]
  foldl_y_w_bias_multi [of empty_vectors, folded aggregate_def]

lemma empty_vectors_simps:
  "x_wo_bias_correction_hmc empty_vectors = []"
  "y_wo_bias_correction_hmc empty_vectors = []"
  "yerr_wo_bias_correction_hmc empty_vectors = []"
  "y_w_bias_correction_hmc empty_vectors = []"
  "x_wo_bias_correction_multi_hmc empty_vectors = []"
  "y_wo_bias_correction_multi_hmc empty_vectors = []"
  "yerr_wo_bias_correction_multi_hmc empty_vectors = []"
  "y_w_bias_correction_multi_hmc empty_vectors = []"
  by (simp_all add: empty_vectors_def)

lemma sqrt_256: "sqrt (256::real) = 16"
  by (rule real_sqrt_unique) simp_all

lemma sqrt_16: "sqrt (16::real) = 4"
  by (rule real_sqrt_unique) simp_all

lemma zip_map3:
  "zip (map f xs) (zip (map g xs) (map h xs)) = map (\<lambda>x. (f x, g x, h x)) xs"
  by (induction xs) simp_all

lemma info_plot_files_step:
  "info_plot_file observable_name f = Inr (Some res) \<Longrightarrow>
     info_plot_files observable_name (f # fs) acc =
       info_plot_files observable_name fs (acc @ [fr_run res])"
  by simp



section \<open>Sanitization of the bootstrap mean and variance\<close>

lemma sqrt_1_25: "sqrt (1 / 25 :: real) = 1 / 5"
  by (rule real_sqrt_unique) (simp_all add: power2_eq_square)

lemma sanitized_value_cases:
  "sanitized_value (Finite x) = (if 10 ^ 200 < x then Finite (- 42) else Finite x)"
  "sanitized_value PInf = Finite (- 42)"
  "sanitized_value NInf = Finite (- 42)"
  "sanitized_value NaN = NaN"
  by (simp_all add: sanitized_value_def isinf_def)

lemma sanitized_error_cases:
  "sanitized_error (Finite x) =
     (if 10 ^ 200 < x then Finite 42 else if x < 0 then NaN else Finite (sqrt x))"
  "sanitized_error PInf = Finite 42"
  "sanitized_error NInf = Finite 42"
  "sanitized_error NaN = Finite 42"
  by (simp_all add: sanitized_error_def isinf_def isnan_def)

lemma sanitization_examples:
  "sanitized_value PInf = Finite (- 42)"
  "sanitized_error NaN = Finite 42"
  "sanitized_value (Finite 0.5) = Finite 0.5"
  "sanitized_error (Finite 0.04) = Finite 0.2"
  by (simp_all add: sanitized_value_cases sanitized_error_cases sqrt_1_25)

text \<open>
  Claim C2. The error is sanitized as the claim says (\<open>sanitized_error_cases\<close>), and the
  three examples of the claim hold (\<open>sanitization_examples\<close>). The value is not: the test
  is \<open>np.isinf(temp) or temp > 1e200\<close>, without an absolute value, so a finite mean below
  \<open>-1e200\<close> is appended unchanged. At mean \<open>-1e201\<close> and variance \<open>0.04\<close>
  \<open>append_observable\<close> appends the value \<open>-1e201\<close>, where the claim asks for \<open>-42\<close>, and the
  error \<open>0.2\<close>.
\<close>

theorem C2_negative_mean_not_sanitized:
  "append_observable ''energy''
     [''energy'' \<mapsto>
       [''bootstrap_mean'' \<mapsto> Finite (- (10 ^ 201)),
        ''bootstrap_variance'' \<mapsto> Finite 0.04]] [] []
   = Inr ([Finite (- (10 ^ 201))], [Finite 0.2])"
  by (simp add: append_observable_def read_bootstrap_mean_def read_bootstrap_variance_def
      getitem_def sanitized_value_cases sanitized_error_cases sqrt_1_25)

section \<open>Which runs enter which fit\<close>

text \<open>
  Claim C1, as the code has it. For a readable file the file loop appends one entry to
  each of its lists and goes on; the entry of \<open>nu_pre_level1\<close> is \<open>-1\<close> when the file
  has no group \<open>level1\<close> and the attribute \<open>nu_pre\<close> of that group otherwise. The
  aggregation loop looks at this entry only. The single-level fit vectors hold the points
  \<open>(sqrt(system_size), int_auto_correlation_time, int_auto_correlation_time_stat_error)\<close>
  of exactly the runs with the entry \<open>-1\<close> and fewer than \<open>33 * 33\<close> sites. The multilevel
  fit vectors hold the points of the runs with another entry and fewer than \<open>33 * 33\<close>
  sites, and of the runs with the entry \<open>-1\<close> and fewer than \<open>5 * 5\<close> sites: the cutoff
  \<open>5 * 5\<close> applies to the runs of the single-level class that are also put into the
  multilevel vectors, the cutoff of the multilevel class is \<open>33 * 33\<close>.
\<close>

theorem C1_fit_group_membership:
  assumes f0: "level0 f = Some g0"
    and mg: "l0_measurements g0 = Some mg"
    and og: "mg observable_name = Some og"
    and name: "file_name f = d @ ''/out_'' @ n" and d: "CHR ''/'' \<notin> set d"
    and sel: "(k = 0 \<and> suf = [] \<and>
          (\<forall>k'. 1 \<le> k' \<and> k' \<le> 100 \<longrightarrow>
             (''int_auto_correlation_time'' @ sufix (1000 * k')) \<notin> dom (og_attrs og)))
        \<or> (1 \<le> k \<and> k \<le> 100 \<and> suf = sufix (1000 * k) \<and>
          (''int_auto_correlation_time'' @ sufix (1000 * k)) \<in> dom (og_attrs og) \<and>
          (\<forall>k'. 1 \<le> k' \<and> k' \<le> 100 \<and>
             (''int_auto_correlation_time'' @ sufix (1000 * k')) \<in> dom (og_attrs og)
             \<longrightarrow> k \<le> k'))"
    and errs: "\<forall>k'. 1 \<le> k' \<and> k' \<le> 100 \<and>
        (''int_auto_correlation_time'' @ sufix (1000 * k')) \<in> dom (og_attrs og) \<longrightarrow>
        (''int_auto_correlation_time_stat_error'' @ sufix (1000 * k')) \<in> dom (og_attrs og)"
    and t: "og_attrs og (''int_auto_correlation_time'' @ suf) = Some t"
    and b: "og_attrs og (''int_auto_correlation_time_bias'' @ suf) = Some b"
    and s: "og_attrs og (''int_auto_correlation_time_stat_error'' @ suf) = Some s"
    and g: "l0_attrs g0 ''gamma'' = Some g"
    and h: "l0_h g0 = Some sz"
    and tick: "l0_attrs g0 ''tick_time'' = Some tick"
    and inter: "l0_attrs g0 ''inter_type'' = Some itp"
    and pre0: "l0_attrs g0 ''nu_pre'' = Some pre0"
    and post0: "l0_attrs g0 ''nu_post'' = Some post0"
    and lv1: "\<forall>a1. level1 f = Some a1 \<longrightarrow> a1 ''nu_pre'' = Some pre1 \<and> a1 ''nu_post'' = Some post1"
    and ds: "sz = 32 * 32 \<longrightarrow> og_datasets og (''auto_correlation'' @ suf) = Some c"
  shows "info_plot_files observable_name (f # fs) acc =
     info_plot_files observable_name fs
       (acc @ [\<lparr> int_auto_correlation_time = t,
                  int_auto_correlation_time_bias = b,
                  int_auto_correlation_time_stat_error = s,
                  gamma = g,
                  system_size = sz,
                  tick_time = tick,
                  interpolation_type = itp,
                  nu_pre_level0 = pre0,
                  nu_post_level0 = post0,
                  nu_pre_level1 = (if level1 f = None then Finite (- 1) else pre1),
                  nu_post_level1 = (if level1 f = None then Finite (- 1) else post1) \<rparr>])
   \<and> x_wo_bias_correction_hmc (aggregate runs) =
     map (\<lambda>r. Finite (sqrt (real (system_size r))))
       (filter (\<lambda>r. nu_pre_level1 r = Finite (- 1) \<and> system_size r < 33 * 33) runs)
   \<and> y_wo_bias_correction_hmc (aggregate runs) =
     map int_auto_correlation_time
       (filter (\<lambda>r. nu_pre_level1 r = Finite (- 1) \<and> system_size r < 33 * 33) runs)
   \<and> yerr_wo_bias_correction_hmc (aggregate runs) =
     map int_auto_correlation_time_stat_error
       (filter (\<lambda>r. nu_pre_level1 r = Finite (- 1) \<and> system_size r < 33 * 33) runs)
   \<and> x_wo_bias_correction_multi_hmc (aggregate runs) =
     map (\<lambda>r. Finite (sqrt (real (system_size r))))
       (filter (\<lambda>r. if nu_pre_level1 r = Finite (- 1) then system_size r < 5 * 5
                     else system_size r < 33 * 33) runs)
   \<and> y_wo_bias_correction_multi_hmc (aggregate runs) =
     map int_auto_correlation_time
       (filter (\<lambda>r. if nu_pre_level1 r = Finite (- 1) then system_size r < 5 * 5
                     else system_size r < 33 * 33) runs)
   \<and> yerr_wo_bias_correction_multi_hmc (aggregate runs) =
     map int_auto_correlation_time_stat_error
       (filter (\<lambda>r. if nu_pre_level1 r = Finite (- 1) then system_size r < 5 * 5
                     else system_size r < 33 * 33) runs)"
proof -
  note res = info_plot_file_result [OF f0 mg og name d sel errs t b s g h tick inter pre0 post0 lv1 ds]
  from info_plot_files_step [OF res, of fs acc] show ?thesis
    by (simp add: aggregate_vectors empty_vectors_simps)
qed

text \<open>
  Claim C1 as stated fails: \<open>mlhmc_run\<close>, the entry of the two-level file \<open>mlhmc_file\<close>,
  has \<open>16 * 16 = 256\<close> sites, which is not below \<open>5 * 5\<close>, and its point is in the
  multilevel fit vectors.
\<close>

theorem C1_counterexample:
  "x_wo_bias_correction_multi_hmc (aggregate [mlhmc_run]) = [Finite 16]
   \<and> y_wo_bias_correction_multi_hmc (aggregate [mlhmc_run]) = [Finite 5]
   \<and> yerr_wo_bias_correction_multi_hmc (aggregate [mlhmc_run]) = [Finite 2]
   \<and> info_plot_files ''magnetization'' [mlhmc_file] [] = Inr [mlhmc_run]
   \<and> nu_pre_level1 mlhmc_run = Finite 2
   \<and> system_size mlhmc_run = 256
   \<and> \<not> (256::nat) < 5 * 5"
  by (simp add: aggregate_vectors empty_vectors_simps mlhmc_run_def sqrt_256
      info_plot_file_mlhmc_file [unfolded mlhmc_run_def])

text \<open>
  The file loop over \<open>hmc_file\<close> and \<open>mlhmc_file\<close> and the fit vectors of the two entries:
  the point of \<open>hmc_run\<close> (\<open>4 * 4\<close> sites, entry \<open>-1\<close>) is in both groups, the point of
  \<open>mlhmc_run\<close> (\<open>16 * 16\<close> sites, entry \<open>2\<close>) in the multilevel group.
\<close>

theorem C1_witness:
  "info_plot_files ''magnetization'' [hmc_file, mlhmc_file] [] = Inr [hmc_run, mlhmc_run]
   \<and> x_wo_bias_correction_hmc (aggregate [hmc_run, mlhmc_run]) = [Finite 4]
   \<and> y_wo_bias_correction_hmc (aggregate [hmc_run, mlhmc_run]) = [Finite 3]
   \<and> yerr_wo_bias_correction_hmc (aggregate [hmc_run, mlhmc_run]) = [Finite 1]
   \<and> x_wo_bias_correction_multi_hmc (aggregate [hmc_run, mlhmc_run]) = [Finite 4, Finite 16]
   \<and> y_wo_bias_correction_multi_hmc (aggregate [hmc_run, mlhmc_run]) = [Finite 3, Finite 5]
   \<and> yerr_wo_bias_correction_multi_hmc (aggregate [hmc_run, mlhmc_run]) = [Finite 1, Finite 2]"
proof -
  note a = C1_fit_group_membership [OF hmc_file_facts,
      where fs = "[mlhmc_file]" and acc = "[]" and runs = "[hmc_run, mlhmc_run]"]
  note b = C1_fit_group_membership [OF mlhmc_file_facts,
      where fs = "[]" and acc = "[hmc_run]" and runs = "[hmc_run, mlhmc_run]"]
  have l: "(level1 hmc_file = None) = True" "(level1 mlhmc_file = None) = False"
    by (simp_all add: hmc_file_def mlhmc_file_def)
  have "info_plot_files ''magnetization'' [hmc_file, mlhmc_file] [] =
      info_plot_files ''magnetization'' [mlhmc_file] [hmc_run]"
    using a [THEN conjunct1] unfolding l hmc_run_def by (simp only: if_True append_Nil)
  also have "\<dots> = info_plot_files ''magnetization'' [] ([hmc_run] @ [mlhmc_run])"
    using b [THEN conjunct1] unfolding l mlhmc_run_def by (simp only: if_False)
  finally have files:
    "info_plot_files ''magnetization'' [hmc_file, mlhmc_file] [] = Inr [hmc_run, mlhmc_run]"
    by simp
  have v: "nu_pre_level1 hmc_run = Finite (- 1)" "nu_pre_level1 mlhmc_run = Finite 2"
    "system_size hmc_run = 16" "system_size mlhmc_run = 256"
    "int_auto_correlation_time hmc_run = Finite 3"
    "int_auto_correlation_time mlhmc_run = Finite 5"
    "int_auto_correlation_time_stat_error hmc_run = Finite 1"
    "int_auto_correlation_time_stat_error mlhmc_run = Finite 2"
    by (simp_all add: hmc_run_def mlhmc_run_def)
  from a [THEN conjunct2] files show ?thesis
    by (simp add: v sqrt_16 sqrt_256)
qed

text \<open>
  Claim C10. Every run of the list that the loop takes as single-level (entry
  \<open>nu_pre_level1 = -1\<close>, which the file loop appends for a file without a group
  \<open>level1\<close>) and that has fewer than \<open>5 * 5\<close> sites has its point
  \<open>(sqrt(system_size), int_auto_correlation_time, int_auto_correlation_time_stat_error)\<close>
  in the single-level fit vectors and in the multilevel fit vectors.
\<close>

theorem C10_small_single_level_in_both_groups:
  assumes "r \<in> set runs" and "nu_pre_level1 r = Finite (- 1)" and "system_size r < 5 * 5"
  shows "(Finite (sqrt (real (system_size r))), int_auto_correlation_time r,
          int_auto_correlation_time_stat_error r)
           \<in> set (zip (x_wo_bias_correction_hmc (aggregate runs))
                    (zip (y_wo_bias_correction_hmc (aggregate runs))
                         (yerr_wo_bias_correction_hmc (aggregate runs))))
       \<and> (Finite (sqrt (real (system_size r))), int_auto_correlation_time r,
          int_auto_correlation_time_stat_error r)
           \<in> set (zip (x_wo_bias_correction_multi_hmc (aggregate runs))
                    (zip (y_wo_bias_correction_multi_hmc (aggregate runs))
                         (yerr_wo_bias_correction_multi_hmc (aggregate runs))))"
  using assms by (auto simp add: aggregate_vectors empty_vectors_simps zip_map3)

text \<open>
  The run \<open>hmc_run\<close> with \<open>4 * 4\<close> sites, next to \<open>mlhmc_run\<close>: its point
  \<open>(sqrt 16, 3, 1)\<close> is in both groups.
\<close>

theorem C10_witness:
  "(Finite (sqrt (real (16::nat))), Finite 3, Finite 1)
     \<in> set (zip (x_wo_bias_correction_hmc (aggregate [mlhmc_run, hmc_run]))
              (zip (y_wo_bias_correction_hmc (aggregate [mlhmc_run, hmc_run]))
                   (yerr_wo_bias_correction_hmc (aggregate [mlhmc_run, hmc_run]))))
   \<and> (Finite (sqrt (real (16::nat))), Finite 3, Finite 1)
     \<in> set (zip (x_wo_bias_correction_multi_hmc (aggregate [mlhmc_run, hmc_run]))
              (zip (y_wo_bias_correction_multi_hmc (aggregate [mlhmc_run, hmc_run]))
                   (yerr_wo_bias_correction_multi_hmc (aggregate [mlhmc_run, hmc_run]))))
   \<and> sqrt (real (16::nat)) = 4"
proof -
  have "hmc_run \<in> set [mlhmc_run, hmc_run]" by simp
  moreover have "nu_pre_level1 hmc_run = Finite (- 1)" by (simp add: hmc_run_def)
  moreover have "system_size hmc_run < 5 * 5" by (simp add: hmc_run_def)
  moreover have "system_size hmc_run = 16"
    "int_auto_correlation_time hmc_run = Finite 3"
    "int_auto_correlation_time_stat_error hmc_run = Finite 1"
    by (simp_all add: hmc_run_def)
  ultimately show ?thesis
    using C10_small_single_level_in_both_groups [of hmc_run "[mlhmc_run, hmc_run]"]
    by (simp add: sqrt_16)
qed

section \<open>Partition into single-level and multilevel runs\<close>

lemma fl_gt_cases:
  "fl_gt g c = (case g of Finite x \<Rightarrow> c < x | PInf \<Rightarrow> True | _ \<Rightarrow> False)"
  by (cases g) simp_all




section \<open>Checkpoint selection\<close>

lemma sufix_decimal:
  "sufix i = ''_'' @ str_nat i @ ''_100000''"
  by (simp add: sufix_def)

lemma append_observable_result:
  assumes ogm: "measurements_group name = Some og'"
    and mean: "og' (if ''bootstrap_mean_10000_100000'' \<in> dom og'
                    then ''bootstrap_mean_10000_100000'' else ''bootstrap_mean'') = Some m"
    and var: "og' (if ''bootstrap_variance_10000_100000'' \<in> dom og'
                   then ''bootstrap_variance_10000_100000'' else ''bootstrap_variance'') = Some v"
  shows "append_observable name measurements_group xs es =
           Inr (xs @ [sanitized_value m], es @ [sanitized_error v])"
proof -
  from mean have "read_bootstrap_mean og' = Inr m"
    by (cases "''bootstrap_mean_10000_100000'' \<in> dom og'")
       (simp_all add: read_bootstrap_mean_def getitem_def)
  moreover from var have "read_bootstrap_variance og' = Inr v"
    by (cases "''bootstrap_variance_10000_100000'' \<in> dom og'")
       (simp_all add: read_bootstrap_variance_def getitem_def)
  ultimately show ?thesis using ogm by (simp add: append_observable_def)
qed

text \<open>
  Claim C3, as the code has it. \<open>info_plot\<close> scans the checkpoints \<open>k = 1, ..., 100\<close>, that
  is the suffixes \<open>_i_100000\<close> with \<open>i = 1000 * k\<close> in decimal, and reads the
  autocorrelation time, its bias and its error of a readable file under the suffix of the
  smallest \<open>k\<close> whose attribute \<open>int_auto_correlation_time\<close> exists, the checkpoint with the
  largest range \<open>100000 - 1000 * k\<close> among those scanned; when none exists (\<open>k = 0\<close>) it
  reads the plain names. The loop reads the error of every checkpoint it finds, so each of
  them must carry one, and on a grid of \<open>32 * 32\<close> sites the dataset \<open>auto_correlation\<close>
  of the selected suffix is read as well.
  \<open>append_observable\<close> does not search: it reads the mean under the fixed suffix
  \<open>_10000_100000\<close> when the attribute \<open>bootstrap_mean_10000_100000\<close> exists and under the
  plain name otherwise, whatever other checkpoints there are, and it decides the same
  way, on its own attribute, for the variance; the value and the error appended are the
  sanitized mean and variance.
\<close>

theorem C3_checkpoint_selection:
  assumes f0: "level0 f = Some g0"
    and mg: "l0_measurements g0 = Some mg"
    and og: "mg observable_name = Some og"
    and name: "file_name f = d @ ''/out_'' @ n" and d: "CHR ''/'' \<notin> set d"
    and sel: "(k = 0 \<and> suf = [] \<and>
          (\<forall>k'. 1 \<le> k' \<and> k' \<le> 100 \<longrightarrow>
             (''int_auto_correlation_time'' @ sufix (1000 * k')) \<notin> dom (og_attrs og)))
        \<or> (1 \<le> k \<and> k \<le> 100 \<and> suf = sufix (1000 * k) \<and>
          (''int_auto_correlation_time'' @ sufix (1000 * k)) \<in> dom (og_attrs og) \<and>
          (\<forall>k'. 1 \<le> k' \<and> k' \<le> 100 \<and>
             (''int_auto_correlation_time'' @ sufix (1000 * k')) \<in> dom (og_attrs og)
             \<longrightarrow> k \<le> k'))"
    and errs: "\<forall>k'. 1 \<le> k' \<and> k' \<le> 100 \<and>
        (''int_auto_correlation_time'' @ sufix (1000 * k')) \<in> dom (og_attrs og) \<longrightarrow>
        (''int_auto_correlation_time_stat_error'' @ sufix (1000 * k')) \<in> dom (og_attrs og)"
    and t: "og_attrs og (''int_auto_correlation_time'' @ suf) = Some t"
    and b: "og_attrs og (''int_auto_correlation_time_bias'' @ suf) = Some b"
    and s: "og_attrs og (''int_auto_correlation_time_stat_error'' @ suf) = Some s"
    and g: "l0_attrs g0 ''gamma'' = Some g"
    and h: "l0_h g0 = Some sz"
    and tick: "l0_attrs g0 ''tick_time'' = Some tick"
    and inter: "l0_attrs g0 ''inter_type'' = Some itp"
    and pre0: "l0_attrs g0 ''nu_pre'' = Some pre0"
    and post0: "l0_attrs g0 ''nu_post'' = Some post0"
    and lv1: "\<forall>a1. level1 f = Some a1 \<longrightarrow> a1 ''nu_pre'' = Some pre1 \<and> a1 ''nu_post'' = Some post1"
    and ds: "sz = 32 * 32 \<longrightarrow> og_datasets og (''auto_correlation'' @ suf) = Some c"
    and ogm: "measurements_group name = Some og'"
    and mean: "og' (if ''bootstrap_mean_10000_100000'' \<in> dom og'
                    then ''bootstrap_mean_10000_100000'' else ''bootstrap_mean'') = Some m"
    and var: "og' (if ''bootstrap_variance_10000_100000'' \<in> dom og'
                   then ''bootstrap_variance_10000_100000'' else ''bootstrap_variance'') = Some v"
  shows "info_plot_file observable_name f =
    Inr (Some
      \<lparr> fr_run =
            \<lparr> int_auto_correlation_time = t,
              int_auto_correlation_time_bias = b,
              int_auto_correlation_time_stat_error = s,
              gamma = g,
              system_size = sz,
              tick_time = tick,
              interpolation_type = itp,
              nu_pre_level0 = pre0,
              nu_post_level0 = post0,
              nu_pre_level1 = (if level1 f = None then Finite (- 1) else pre1),
              nu_post_level1 = (if level1 f = None then Finite (- 1) else post1) \<rparr>,
        fr_label =
            (if level1 f = None then ''HMC''
             else if (case g of Finite x \<Rightarrow> 1 < x | PInf \<Rightarrow> True | _ \<Rightarrow> False)
             then ''MLHMC  W-cycle'' else ''MLHMC V-cycle''),
        fr_title =
            (if level1 f = None then ''HMC '' else ''MLHMC '') @ ''Grid side length ='' @
              drop 2 (hd (split_sep CHR ''_'' (hd (split_sep CHR ''/'' n)))),
        fr_curve =
            (if sz = 32 * 32
             then Some (c,
                  (if level1 f = None then ''HMC''
                   else if (case g of Finite x \<Rightarrow> 1 < x | PInf \<Rightarrow> True | _ \<Rightarrow> False)
                   then ''MLHMC  W-cycle'' else ''MLHMC V-cycle''))
             else None) \<rparr>)
   \<and> sufix (1000 * k) = ''_'' @ str_nat (1000 * k) @ ''_100000''
   \<and> foldl (\<lambda>a c. 10 * a + (of_char c - 48)) 0 (str_nat (1000 * k)) = 1000 * k
   \<and> append_observable name measurements_group xs es =
       Inr (xs @ [(case m of Finite x \<Rightarrow> if 10 ^ 200 < x then Finite (- 42) else Finite x
                 | PInf \<Rightarrow> Finite (- 42) | NInf \<Rightarrow> Finite (- 42) | NaN \<Rightarrow> NaN)],
            es @ [(case v of Finite x \<Rightarrow> if 10 ^ 200 < x then Finite 42
                                else if x < 0 then NaN else Finite (sqrt x)
                 | PInf \<Rightarrow> Finite 42 | NInf \<Rightarrow> Finite 42 | NaN \<Rightarrow> Finite 42)])"
proof -
  note res = info_plot_file_result [OF f0 mg og name d sel errs t b s g h tick inter pre0 post0 lv1 ds]
  have 1: "info_plot_file observable_name f =
    Inr (Some
      \<lparr> fr_run =
            \<lparr> int_auto_correlation_time = t,
              int_auto_correlation_time_bias = b,
              int_auto_correlation_time_stat_error = s,
              gamma = g,
              system_size = sz,
              tick_time = tick,
              interpolation_type = itp,
              nu_pre_level0 = pre0,
              nu_post_level0 = post0,
              nu_pre_level1 = (if level1 f = None then Finite (- 1) else pre1),
              nu_post_level1 = (if level1 f = None then Finite (- 1) else post1) \<rparr>,
        fr_label =
            (if level1 f = None then ''HMC''
             else if (case g of Finite x \<Rightarrow> 1 < x | PInf \<Rightarrow> True | _ \<Rightarrow> False)
             then ''MLHMC  W-cycle'' else ''MLHMC V-cycle''),
        fr_title =
            (if level1 f = None then ''HMC '' else ''MLHMC '') @ ''Grid side length ='' @
              drop 2 (hd (split_sep CHR ''_'' (hd (split_sep CHR ''/'' n)))),
        fr_curve =
            (if sz = 32 * 32
             then Some (c,
                  (if level1 f = None then ''HMC''
                   else if (case g of Finite x \<Rightarrow> 1 < x | PInf \<Rightarrow> True | _ \<Rightarrow> False)
                   then ''MLHMC  W-cycle'' else ''MLHMC V-cycle''))
             else None) \<rparr>)"
    unfolding fl_gt_cases [of g 1, symmetric] by (rule res)
  have 2: "sufix (1000 * k) = ''_'' @ str_nat (1000 * k) @ ''_100000''"
    by (rule sufix_decimal)
  have 3: "foldl (\<lambda>a c. 10 * a + (of_char c - 48)) 0 (str_nat (1000 * k)) = 1000 * k"
    using str_nat_decimal [of "1000 * k"] by (elim conjE)
  have val: "sanitized_value m =
      (case m of Finite x \<Rightarrow> if 10 ^ 200 < x then Finite (- 42) else Finite x
                 | PInf \<Rightarrow> Finite (- 42) | NInf \<Rightarrow> Finite (- 42) | NaN \<Rightarrow> NaN)"
    by (cases m) (simp_all add: sanitized_value_cases)
  have err: "sanitized_error v =
      (case v of Finite x \<Rightarrow> if 10 ^ 200 < x then Finite 42
                                else if x < 0 then NaN else Finite (sqrt x)
                 | PInf \<Rightarrow> Finite 42 | NInf \<Rightarrow> Finite 42 | NaN \<Rightarrow> Finite 42)"
    by (cases v) (simp_all add: sanitized_error_cases)
  have 4: "append_observable name measurements_group xs es =
       Inr (xs @ [(case m of Finite x \<Rightarrow> if 10 ^ 200 < x then Finite (- 42) else Finite x
                 | PInf \<Rightarrow> Finite (- 42) | NInf \<Rightarrow> Finite (- 42) | NaN \<Rightarrow> NaN)],
            es @ [(case v of Finite x \<Rightarrow> if 10 ^ 200 < x then Finite 42
                                else if x < 0 then NaN else Finite (sqrt x)
                 | PInf \<Rightarrow> Finite 42 | NInf \<Rightarrow> Finite 42 | NaN \<Rightarrow> Finite 42)])"
    using append_observable_result [of measurements_group name og' m v xs es, OF ogm mean var]
    unfolding val err .
  from 1 2 3 4 show ?thesis by (intro conjI)
qed

text \<open>
  Claim C3 as stated fails in \<open>append_observable\<close>: with the checkpoints
  \<open>_1000_100000\<close> (mean 1, variance 0) and \<open>_10000_100000\<close> (mean 2, variance 1) the
  value and the error come from \<open>_10000_100000\<close>, not from the checkpoint with the larger
  sample range.
\<close>

theorem C3_counterexample:
  "append_observable ''magnetization''
     [''magnetization'' \<mapsto>
       [''bootstrap_mean_1000_100000'' \<mapsto> Finite 1,
        ''bootstrap_variance_1000_100000'' \<mapsto> Finite 0,
        ''bootstrap_mean_10000_100000'' \<mapsto> Finite 2,
        ''bootstrap_variance_10000_100000'' \<mapsto> Finite 1]] [] []
   = Inr ([Finite 2], [Finite 1])"
  by (simp add: append_observable_def read_bootstrap_mean_def read_bootstrap_variance_def
      getitem_def sanitized_value_def sanitized_error_def isinf_def isnan_def)

text \<open>
  The file loop on \<open>mlhmc_file\<close>, whose checkpoints are \<open>_2000_100000\<close> and
  \<open>_3000_100000\<close>: the entries are those of \<open>_2000_100000\<close> (\<open>k = 2\<close>), not the plain ones.
  \<open>append_observable\<close> on an observable with the mean of the checkpoint \<open>_10000_100000\<close>
  and no variance of it: the value is the mean of the checkpoint, the error the root of
  the plain variance.
\<close>

theorem C3_witness:
  "info_plot_file ''magnetization'' mlhmc_file =
     Inr (Some \<lparr> fr_run = mlhmc_run, fr_label = ''MLHMC  W-cycle'',
                 fr_title = ''MLHMC Grid side length =16.h5'', fr_curve = None \<rparr>)
   \<and> int_auto_correlation_time mlhmc_run = Finite 5
   \<and> int_auto_correlation_time_bias mlhmc_run = Finite 0
   \<and> int_auto_correlation_time_stat_error mlhmc_run = Finite 2
   \<and> sufix 2000 = ''_2000_100000''
   \<and> append_observable ''magnetization''
        [''magnetization'' \<mapsto>
          [''bootstrap_mean'' \<mapsto> Finite 1, ''bootstrap_variance'' \<mapsto> Finite 0.04,
           ''bootstrap_mean_10000_100000'' \<mapsto> Finite 2]] [] []
      = Inr ([Finite 2], [Finite 0.2])"
proof -
  let ?og' = "[''bootstrap_mean'' \<mapsto> Finite 1, ''bootstrap_variance'' \<mapsto> Finite 0.04,
           ''bootstrap_mean_10000_100000'' \<mapsto> Finite (2::real)]"
  have o: "[''magnetization'' \<mapsto> ?og'] ''magnetization'' = Some ?og'"
    "?og' (if ''bootstrap_mean_10000_100000'' \<in> dom ?og'
           then ''bootstrap_mean_10000_100000'' else ''bootstrap_mean'') = Some (Finite 2)"
    "?og' (if ''bootstrap_variance_10000_100000'' \<in> dom ?og'
           then ''bootstrap_variance_10000_100000'' else ''bootstrap_variance'')
       = Some (Finite 0.04)"
    by simp_all
  note c = C3_checkpoint_selection [where measurements_group = "[''magnetization'' \<mapsto> ?og']"
      and name = "''magnetization''" and og' = ?og' and m = "Finite 2" and v = "Finite 0.04"
      and xs = "[]" and es = "[]", OF mlhmc_file_facts o]
  have l: "(level1 mlhmc_file = None) = False" by (simp add: mlhmc_file_def)
  have 1: "info_plot_file ''magnetization'' mlhmc_file =
     Inr (Some \<lparr> fr_run = mlhmc_run, fr_label = ''MLHMC  W-cycle'',
                 fr_title = ''MLHMC Grid side length =16.h5'', fr_curve = None \<rparr>)"
    using c [THEN conjunct1] unfolding l title_gs mlhmc_run_def by simp
  have 2: "sufix 2000 = ''_2000_100000''"
    using c [THEN conjunct2, THEN conjunct1] by simp
  have 3: "append_observable ''magnetization'' [''magnetization'' \<mapsto> ?og'] [] []
      = Inr ([Finite 2], [Finite 0.2])"
    using c [THEN conjunct2, THEN conjunct2, THEN conjunct2] by (simp add: sqrt_1_25)
  have 4: "int_auto_correlation_time mlhmc_run = Finite 5"
    "int_auto_correlation_time_bias mlhmc_run = Finite 0"
    "int_auto_correlation_time_stat_error mlhmc_run = Finite 2"
    by (simp_all add: mlhmc_run_def)
  from 1 2 3 4 show ?thesis by (intro conjI)
qed

end
